theory Spec2Isabelle
  imports Main "HOL-Library.AList"
begin

section \<open>The scheduled-post job queue\<close>

text \<open>
  A shallow embedding of \<^verbatim>\<open>src/utils/jobQueue.js\<close> (the scheduler facade with its
  in-memory fallback and its Bull/Redis path) and of the two REST handlers of
  \<^verbatim>\<open>src/controllers/scheduled.js\<close> that validate a request before they call it.

  The module state (\<^verbatim>\<open>scheduledPostsQueue\<close>, \<^verbatim>\<open>isRedisAvailable\<close>, \<^verbatim>\<open>inMemoryJobs\<close>,
  \<^verbatim>\<open>jobIdCounter\<close>) is a record that every operation takes and returns. A thrown
  \<^verbatim>\<open>Error\<close> is the \<open>Inl\<close> branch of the result; the state is returned next to it,
  because an exception does not undo what was written before it.
\<close>

subsection \<open>JavaScript values\<close>

text \<open>
  A \<^verbatim>\<open>Date\<close> is its time value in milliseconds; \<open>None\<close> is the Invalid Date, whose
  time value is NaN. Subtraction and comparison of dates go through that number, and
  every comparison with NaN is false.
\<close>

type_synonym jsnum = "int option"

definition num_minus :: "jsnum \<Rightarrow> jsnum \<Rightarrow> jsnum" where
  "num_minus a b = (case (a, b) of (Some x, Some y) \<Rightarrow> Some (x - y) | _ \<Rightarrow> None)"

definition num_plus :: "jsnum \<Rightarrow> jsnum \<Rightarrow> jsnum" where
  "num_plus a b = (case (a, b) of (Some x, Some y) \<Rightarrow> Some (x + y) | _ \<Rightarrow> None)"

definition num_le :: "jsnum \<Rightarrow> jsnum \<Rightarrow> bool" where
  "num_le a b = (case (a, b) of (Some x, Some y) \<Rightarrow> x \<le> y | _ \<Rightarrow> False)"

definition num_gt :: "jsnum \<Rightarrow> jsnum \<Rightarrow> bool" where
  "num_gt a b = (case (a, b) of (Some x, Some y) \<Rightarrow> x > y | _ \<Rightarrow> False)"

text \<open>
  \<^verbatim>\<open>new Date(value)\<close>. A value is given by the instant it denotes, in milliseconds
  since the epoch: \<open>Some t\<close> for the number \<open>t\<close>, for a date text of that instant and
  for a \<^verbatim>\<open>Date\<close> with that time value; \<open>None\<close> for a text that is no date and for the
  Invalid Date. A \<^verbatim>\<open>Date\<close> holds no instant further than 8.64e15 ms from the epoch: the
  conversion clips every other one to the Invalid Date.
\<close>

definition TimeClip :: "int \<Rightarrow> jsnum" where
  "TimeClip t = (if \<bar>t\<bar> \<le> 8640000000000000 then Some t else None)"

definition Date_new :: "int option \<Rightarrow> jsnum" where
  "Date_new v = (case v of None \<Rightarrow> None | Some t \<Rightarrow> TimeClip t)"

text \<open>\<^verbatim>\<open>new Error(message)\<close>.\<close>

datatype error = Error string

text \<open>
  The decimal text of an integer, as a template literal \<^verbatim>\<open>`${n}`\<close> produces it.
\<close>

definition digit :: "nat \<Rightarrow> char" where
  "digit d =
     (if d = 0 then CHR ''0'' else if d = 1 then CHR ''1'' else if d = 2 then CHR ''2''
      else if d = 3 then CHR ''3'' else if d = 4 then CHR ''4'' else if d = 5 then CHR ''5''
      else if d = 6 then CHR ''6'' else if d = 7 then CHR ''7'' else if d = 8 then CHR ''8''
      else CHR ''9'')"

fun digits :: "nat \<Rightarrow> string" where
  "digits n = (if n < 10 then [digit n] else digits (n div 10) @ [digit (n mod 10)])"

declare digits.simps [simp del]

definition ToString :: "int \<Rightarrow> string" where
  "ToString i = (if i < 0 then CHR ''-'' # digits (nat (- i)) else digits (nat i))"

text \<open>\<^verbatim>\<open>str.startsWith(searchString)\<close>.\<close>

definition startsWith :: "string \<Rightarrow> string \<Rightarrow> bool" where
  "startsWith str searchString = (take (length searchString) str = searchString)"

subsection \<open>The \<^verbatim>\<open>Map\<close> of pending jobs\<close>

text \<open>
  A JavaScript \<^verbatim>\<open>Map\<close> keeps its entries in insertion order, and \<^verbatim>\<open>set\<close> on a key
  that is present replaces the value where it stands: an association list with
  \<open>AList.update\<close> and \<open>AList.delete\<close>.
\<close>

definition Map_has :: "('k \<times> 'v) list \<Rightarrow> 'k \<Rightarrow> bool" where
  "Map_has m k = (map_of m k \<noteq> None)"

definition Map_get :: "('k \<times> 'v) list \<Rightarrow> 'k \<Rightarrow> 'v option" where
  "Map_get m k = map_of m k"

definition Map_set :: "('k \<times> 'v) list \<Rightarrow> 'k \<Rightarrow> 'v \<Rightarrow> ('k \<times> 'v) list" where
  "Map_set m k v = AList.update k v m"

definition Map_delete :: "('k \<times> 'v) list \<Rightarrow> 'k \<Rightarrow> ('k \<times> 'v) list" where
  "Map_delete m k = AList.delete k m"

definition Map_values :: "('k \<times> 'v) list \<Rightarrow> 'v list" where
  "Map_values m = map snd m"

subsection \<open>Jobs, timers and the module state\<close>

text \<open>The payload \<^verbatim>\<open>{ content }\<close> that both callers build.\<close>

record post_data =
  pd_content :: string

text \<open>The argument \<^verbatim>\<open>{ ...postData, user_id: userId }\<close> of \<^verbatim>\<open>Post.createPost\<close>.\<close>

record createPost_args = post_data +
  pd_user_id :: int

text \<open>
  An entry \<^verbatim>\<open>jobData\<close> of \<^verbatim>\<open>inMemoryJobs\<close>. The field \<^verbatim>\<open>error\<close> does not exist until
  the timer callback writes it.
\<close>

record job =
  job_id :: string
  job_postData :: post_data
  job_userId :: int
  job_scheduledTime :: jsnum
  job_status :: string
  job_createdAt :: int
  job_error :: "string option"

text \<open>
  What the closure passed to \<^verbatim>\<open>setTimeout\<close> captures, with the delay it was armed
  with.
\<close>

record timer =
  t_jobId :: string
  t_postData :: post_data
  t_userId :: int
  t_delay :: jsnum

text \<open>
  The fields of a Bull job that the module reads: \<^verbatim>\<open>job.id\<close>, \<^verbatim>\<open>job.data.postData\<close>,
  \<^verbatim>\<open>job.data.userId\<close>, \<^verbatim>\<open>job.opts.delay\<close>, \<^verbatim>\<open>job.processedOn\<close> (undefined until a
  worker takes the job) and \<^verbatim>\<open>job.timestamp\<close>.
\<close>

record bull_job =
  bj_id :: string
  bj_postData :: post_data
  bj_userId :: int
  bj_delay :: jsnum
  bj_processedOn :: jsnum
  bj_timestamp :: int

text \<open>
  Bull is a library outside the repository. Its queue is a state of an arbitrary type
  \<open>'q\<close>, and the calls the module makes on it are the fields of a record that every
  operation takes as its first argument; nothing is assumed about them. In
  \<^verbatim>\<open>cancelScheduledPost\<close> the two calls may reject, and the \<^verbatim>\<open>catch\<close> block rethrows
  what they reject with; the calls of scheduling, listing and statistics are taken to
  return.

  \<^item> \<open>Queue_add name data delay jobId q\<close> is
    \<^verbatim>\<open>queue.add(name, data, { delay, jobId })\<close>: the job and the queue after it;
  \<^item> \<open>Queue_getJob jobId q\<close> is \<^verbatim>\<open>queue.getJob(jobId)\<close>: \<open>Inl\<close> the error of a
    rejected call, \<open>Inr None\<close> for \<^verbatim>\<open>null\<close>;
  \<^item> \<open>Job_remove job q\<close> is \<^verbatim>\<open>job.remove()\<close>: the error of a rejected call, if any, and
    the queue the call leaves behind;
  \<^item> \<open>Queue_getJobs types q\<close> is \<^verbatim>\<open>queue.getJobs(types)\<close>, and the five
    \<^verbatim>\<open>getWaiting\<close> ... \<^verbatim>\<open>getDelayed\<close> likewise.
\<close>

record 'q bull =
  Queue_add :: "string \<Rightarrow> post_data \<times> int \<Rightarrow> jsnum \<Rightarrow> string \<Rightarrow> 'q \<Rightarrow> bull_job \<times> 'q"
  Queue_getJob :: "string \<Rightarrow> 'q \<Rightarrow> error + bull_job option"
  Job_remove :: "bull_job \<Rightarrow> 'q \<Rightarrow> error option \<times> 'q"
  Queue_getJobs :: "string list \<Rightarrow> 'q \<Rightarrow> bull_job list"
  Queue_getWaiting :: "'q \<Rightarrow> bull_job list"
  Queue_getActive :: "'q \<Rightarrow> bull_job list"
  Queue_getCompleted :: "'q \<Rightarrow> bull_job list"
  Queue_getFailed :: "'q \<Rightarrow> bull_job list"
  Queue_getDelayed :: "'q \<Rightarrow> bull_job list"

text \<open>
  The module state. \<open>scheduledPostsQueue = None\<close> is the variable still
  \<^verbatim>\<open>undefined\<close>. Three fields record what lies outside the module: the timers that
  are armed and have not fired, the callbacks that have fired and are suspended at
  \<^verbatim>\<open>await Post.createPost(...)\<close>, and the calls \<^verbatim>\<open>Post.createPost\<close> has received from
  the timer callbacks.

  \<^verbatim>\<open>jobIdCounter\<close> is a JavaScript number that starts at 1 and grows by one per job;
  such a number is exact below \<open>2^53\<close>, and the model takes it as a natural number.
\<close>

record 'q state =
  scheduledPostsQueue :: "'q option"
  isRedisAvailable :: bool
  inMemoryJobs :: "(string \<times> job) list"
  jobIdCounter :: nat
  timers :: "timer list"
  awaiting :: "timer list"
  createPostCalls :: "createPost_args list"

text \<open>The state when the module has been loaded and \<^verbatim>\<open>initializeQueue\<close> has not finished.\<close>

definition module_load :: "'q state" where
  "module_load =
     \<lparr>scheduledPostsQueue = None, isRedisAvailable = False, inMemoryJobs = [],
      jobIdCounter = 1, timers = [], awaiting = [], createPostCalls = []\<rparr>"

text \<open>
  The test \<^verbatim>\<open>isRedisAvailable && scheduledPostsQueue\<close> that selects the Bull path: the
  queue when both hold.
\<close>

definition activeQueue :: "'q state \<Rightarrow> 'q option" where
  "activeQueue s = (if isRedisAvailable s then scheduledPostsQueue s else None)"

subsection \<open>\<^verbatim>\<open>initializeQueue\<close>\<close>

text \<open>
  \<open>probe\<close> is what \<^verbatim>\<open>testRedisConnection()\<close> resolved to, and \<open>newQueue\<close> the outcome of
  \<^verbatim>\<open>new Queue('scheduled posts', ...)\<close>: \<open>None\<close> when the constructor threw, which the
  \<^verbatim>\<open>catch\<close> block answers by clearing the flag. The registration of the worker with
  \<^verbatim>\<open>process\<close> is taken to return.
\<close>

definition initializeQueue :: "bool \<Rightarrow> 'q option \<Rightarrow> 'q state \<Rightarrow> 'q state" where
  "initializeQueue probe newQueue s =
     (let s1 = s\<lparr>isRedisAvailable := probe\<rparr> in
      if isRedisAvailable s1 then
        (case newQueue of
           Some q \<Rightarrow> s1\<lparr>scheduledPostsQueue := Some q\<rparr>
         | None \<Rightarrow> s1\<lparr>isRedisAvailable := False\<rparr>)
      else s1)"

subsection \<open>\<^verbatim>\<open>schedulePost\<close>\<close>

record schedule_result =
  sr_jobId :: string
  sr_scheduledTime :: jsnum
  sr_status :: string
  sr_message :: string

text \<open>
  \<open>now\<close> is the clock at \<^verbatim>\<open>new Date()\<close> in the first statement, \<open>now2\<close> the clock at
  the second reading (\<^verbatim>\<open>Date.now()\<close> in the job identifier of the Bull path,
  \<^verbatim>\<open>createdAt: new Date()\<close> in the fallback). \<open>scheduledTime\<close> is the argument as it
  is passed, before \<^verbatim>\<open>new Date(scheduledTime)\<close>; the job keeps the argument itself.
\<close>

definition schedulePost ::
  "'q bull \<Rightarrow> 'q state \<Rightarrow> int \<Rightarrow> int \<Rightarrow> post_data \<Rightarrow> int \<Rightarrow> jsnum
     \<Rightarrow> (error + schedule_result) \<times> 'q state" where
  "schedulePost B s now now2 postData userId scheduledTime =
     (let delay = num_minus (Date_new scheduledTime) (Some now) in
      if num_le delay (Some 0) then
        (Inl (Error ''Scheduled time must be in the future''), s)
      else
        (case activeQueue s of
           Some q \<Rightarrow>
             (let (bjob, q') =
                    Queue_add B ''createPost'' (postData, userId) delay
                      (''scheduled-post-'' @ ToString userId @ ''-'' @ ToString now2) q
              in (Inr \<lparr>sr_jobId = bj_id bjob, sr_scheduledTime = scheduledTime,
                       sr_status = ''scheduled'',
                       sr_message = ''Post scheduled successfully''\<rparr>,
                  s\<lparr>scheduledPostsQueue := Some q'\<rparr>))
         | None \<Rightarrow>
             (let jobId = ''memory-job-'' @ ToString (int (jobIdCounter s));
                  jobData = \<lparr>job_id = jobId, job_postData = postData, job_userId = userId,
                             job_scheduledTime = scheduledTime, job_status = ''scheduled'',
                             job_createdAt = now2, job_error = None\<rparr>
              in (Inr \<lparr>sr_jobId = jobId, sr_scheduledTime = scheduledTime,
                       sr_status = ''scheduled'',
                       sr_message = ''Post scheduled successfully (in-memory)''\<rparr>,
                  s\<lparr>jobIdCounter := jobIdCounter s + 1,
                    inMemoryJobs := Map_set (inMemoryJobs s) jobId jobData,
                    timers := timers s @
                      [\<lparr>t_jobId = jobId, t_postData = postData, t_userId = userId,
                        t_delay = delay\<rparr>]\<rparr>))))"

subsection \<open>\<^verbatim>\<open>cancelScheduledPost\<close>\<close>

record cancel_result =
  cr_jobId :: string
  cr_status :: string
  cr_message :: string

text \<open>
  The Bull path is taken when
  \<^verbatim>\<open>isRedisAvailable && scheduledPostsQueue && !jobId.startsWith('memory-job-')\<close>;
  every other call looks the identifier up in \<^verbatim>\<open>inMemoryJobs\<close>. Neither path touches
  the timer that \<^verbatim>\<open>schedulePost\<close> armed: its handle was never kept. On the Bull path
  a rejected \<^verbatim>\<open>getJob\<close> or \<^verbatim>\<open>job.remove()\<close> is rethrown.
\<close>

definition cancelScheduledPost ::
  "'q bull \<Rightarrow> 'q state \<Rightarrow> string \<Rightarrow> (error + cancel_result) \<times> 'q state" where
  "cancelScheduledPost B s jobId =
     (case (if \<not> startsWith jobId ''memory-job-'' then activeQueue s else None) of
        Some q \<Rightarrow>
          (case Queue_getJob B jobId q of
             Inl err \<Rightarrow> (Inl err, s)
           | Inr None \<Rightarrow> (Inl (Error ''Scheduled post not found''), s)
           | Inr (Some bjob) \<Rightarrow>
               (case Job_remove B bjob q of
                  (Some err, q') \<Rightarrow> (Inl err, s\<lparr>scheduledPostsQueue := Some q'\<rparr>)
                | (None, q') \<Rightarrow>
                    (Inr \<lparr>cr_jobId = jobId, cr_status = ''cancelled'',
                          cr_message = ''Scheduled post cancelled successfully''\<rparr>,
                     s\<lparr>scheduledPostsQueue := Some q'\<rparr>)))
      | None \<Rightarrow>
          (if \<not> Map_has (inMemoryJobs s) jobId then
             (Inl (Error ''Scheduled post not found''), s)
           else
             (Inr \<lparr>cr_jobId = jobId, cr_status = ''cancelled'',
                   cr_message = ''Scheduled post cancelled successfully (in-memory)''\<rparr>,
              s\<lparr>inMemoryJobs := Map_delete (inMemoryJobs s) jobId\<rparr>)))"

subsection \<open>\<^verbatim>\<open>getScheduledPosts\<close>\<close>

text \<open>The objects of the returned array. They carry no owner and no \<^verbatim>\<open>error\<close> field.\<close>

record scheduled_post =
  sp_jobId :: string
  sp_postData :: post_data
  sp_scheduledTime :: jsnum
  sp_status :: string
  sp_createdAt :: int

definition bull_view :: "bull_job \<Rightarrow> scheduled_post" where
  "bull_view bjob =
     \<lparr>sp_jobId = bj_id bjob, sp_postData = bj_postData bjob,
      sp_scheduledTime = Date_new (num_plus (bj_processedOn bjob) (bj_delay bjob)),
      sp_status = (if num_gt (bj_delay bjob) (Some 0) then ''scheduled'' else ''processing''),
      sp_createdAt = bj_timestamp bjob\<rparr>"

definition memory_view :: "job \<Rightarrow> scheduled_post" where
  "memory_view j =
     \<lparr>sp_jobId = job_id j, sp_postData = job_postData j,
      sp_scheduledTime = job_scheduledTime j, sp_status = job_status j,
      sp_createdAt = job_createdAt j\<rparr>"

definition getScheduledPosts :: "'q bull \<Rightarrow> 'q state \<Rightarrow> int \<Rightarrow> scheduled_post list" where
  "getScheduledPosts B s userId =
     (case activeQueue s of
        Some q \<Rightarrow>
          map bull_view
            (filter (\<lambda>bjob. bj_userId bjob = userId) (Queue_getJobs B [''delayed'', ''waiting''] q))
      | None \<Rightarrow>
          map memory_view
            (filter (\<lambda>j. job_userId j = userId) (Map_values (inMemoryJobs s))))"

subsection \<open>\<^verbatim>\<open>getQueueStats\<close>\<close>

record queue_stats =
  qs_waiting :: nat
  qs_active :: nat
  qs_completed :: nat
  qs_failed :: nat
  qs_delayed :: nat
  qs_total :: nat
  qs_type :: string

definition getQueueStats :: "'q bull \<Rightarrow> 'q state \<Rightarrow> queue_stats" where
  "getQueueStats B s =
     (case activeQueue s of
        Some q \<Rightarrow>
          (let waiting = Queue_getWaiting B q;
               active = Queue_getActive B q;
               completed = Queue_getCompleted B q;
               failed = Queue_getFailed B q;
               delayed = Queue_getDelayed B q
           in \<lparr>qs_waiting = length waiting, qs_active = length active,
                qs_completed = length completed, qs_failed = length failed,
                qs_delayed = length delayed,
                qs_total = length waiting + length active + length completed
                           + length failed + length delayed,
                qs_type = ''redis''\<rparr>)
      | None \<Rightarrow>
          (let jobs = Map_values (inMemoryJobs s);
               scheduled = length (filter (\<lambda>j. job_status j = ''scheduled'') jobs);
               failed = length (filter (\<lambda>j. job_status j = ''failed'') jobs)
           in \<lparr>qs_waiting = 0, qs_active = 0, qs_completed = 0, qs_failed = failed,
                qs_delayed = scheduled, qs_total = length jobs,
                qs_type = ''in-memory''\<rparr>))"

subsection \<open>The timer callback of the fallback\<close>

text \<open>
  The callback that \<^verbatim>\<open>schedulePost\<close> hands to \<^verbatim>\<open>setTimeout\<close> runs in two parts. When
  the timer fires it calls \<^verbatim>\<open>Post.createPost({ ...postData, user_id: userId })\<close> and
  suspends at the \<^verbatim>\<open>await\<close>; it reads nothing of \<^verbatim>\<open>inMemoryJobs\<close> before the call. When
  the promise settles it resumes: a resolved promise deletes the entry, a rejected one
  goes to the \<^verbatim>\<open>catch\<close> block, which marks the entry if it is still there.
\<close>

datatype outcome = Resolved | Rejected error

definition callback_start :: "timer \<Rightarrow> 'q state \<Rightarrow> 'q state" where
  "callback_start t s =
     s\<lparr>createPostCalls := createPostCalls s @
         [\<lparr>pd_content = pd_content (t_postData t), pd_user_id = t_userId t\<rparr>]\<rparr>"

definition callback_resume :: "timer \<Rightarrow> outcome \<Rightarrow> 'q state \<Rightarrow> 'q state" where
  "callback_resume t res s =
     (case res of
        Resolved \<Rightarrow> s\<lparr>inMemoryJobs := Map_delete (inMemoryJobs s) (t_jobId t)\<rparr>
      | Rejected (Error message) \<Rightarrow>
          (case Map_get (inMemoryJobs s) (t_jobId t) of
             Some j \<Rightarrow>
               s\<lparr>inMemoryJobs :=
                   Map_set (inMemoryJobs s) (t_jobId t)
                     (j\<lparr>job_status := ''failed'', job_error := Some message\<rparr>)\<rparr>
           | None \<Rightarrow> s))"

text \<open>
  The event loop picks an armed timer (the \<open>i\<close>-th) and runs the first part of its
  callback, or settles the promise of a suspended callback and runs the second part.
  An index out of range is no event.
\<close>

definition timer_fires :: "nat \<Rightarrow> 'q state \<Rightarrow> 'q state" where
  "timer_fires i s =
     (if i < length (timers s) then
        callback_start (timers s ! i)
          (s\<lparr>timers := take i (timers s) @ drop (Suc i) (timers s),
             awaiting := awaiting s @ [timers s ! i]\<rparr>)
      else s)"

definition createPost_settles :: "nat \<Rightarrow> outcome \<Rightarrow> 'q state \<Rightarrow> 'q state" where
  "createPost_settles i res s =
     (if i < length (awaiting s) then
        callback_resume (awaiting s ! i) res
          (s\<lparr>awaiting := take i (awaiting s) @ drop (Suc i) (awaiting s)\<rparr>)
      else s)"

subsection \<open>The REST handlers\<close>

text \<open>
  A handler answers with \<^verbatim>\<open>res.status(code).json(body)\<close>; \<^verbatim>\<open>res.json(body)\<close> alone is
  status 200. The body has some of the keys \<^verbatim>\<open>error\<close>, \<^verbatim>\<open>details\<close>, \<^verbatim>\<open>message\<close> and
  \<^verbatim>\<open>data\<close>.
\<close>

record 'd response =
  res_status :: nat
  res_error :: "string option"
  res_details :: "string option"
  res_message :: "string option"
  res_data :: "'d option"

definition reject :: "nat \<Rightarrow> string \<Rightarrow> 'd response" where
  "reject code err =
     \<lparr>res_status = code, res_error = Some err, res_details = None, res_message = None,
      res_data = None\<rparr>"

text \<open>
  The field \<^verbatim>\<open>scheduledTime\<close> of the request body: falsy (absent, \<^verbatim>\<open>null\<close>, empty,
  zero), or a truthy value, given by the instant it denotes (\<open>None\<close> for a text that is
  no date).
\<close>

datatype body_time = Falsy | Truthy "int option"

record schedule_data =
  sd_jobId :: string
  sd_scheduledTime :: jsnum
  sd_status :: string
  sd_postData :: post_data

text \<open>
  \<^verbatim>\<open>scheduleNewPost\<close>. \<open>validate\<close> is \<^verbatim>\<open>createPostSchema.validate({ content })\<close> of
  \<^verbatim>\<open>utils/validation\<close>, a file that is not in the repository snapshot: it yields
  \<^verbatim>\<open>error.details[0].message\<close> when it rejects. \<open>now\<close> is the handler's own
  \<^verbatim>\<open>new Date()\<close>; \<open>now1\<close> and \<open>now2\<close> are the later readings inside
  \<^verbatim>\<open>schedulePost\<close>.
\<close>

definition scheduleNewPost ::
  "'q bull \<Rightarrow> (string \<Rightarrow> string option) \<Rightarrow> 'q state \<Rightarrow> int \<Rightarrow> int \<Rightarrow> int
     \<Rightarrow> int \<Rightarrow> string \<Rightarrow> body_time \<Rightarrow> schedule_data response \<times> 'q state" where
  "scheduleNewPost B validate s now now1 now2 userId content scheduledTime =
     (case validate content of
        Some details \<Rightarrow>
          ((reject 400 ''Validation failed'')\<lparr>res_details := Some details\<rparr>, s)
      | None \<Rightarrow>
          (case scheduledTime of
             Falsy \<Rightarrow> (reject 400 ''Scheduled time is required'', s)
           | Truthy value \<Rightarrow>
               (let scheduledDate = Date_new value in
                if num_le scheduledDate (Some now) then
                  (reject 400 ''Scheduled time must be in the future'', s)
                else
                  (let maxScheduleTime = TimeClip (now + 365 * 24 * 60 * 60 * 1000) in
                   if num_gt scheduledDate maxScheduleTime then
                     (reject 400 ''Cannot schedule posts more than 1 year in advance'', s)
                   else
                    (let postData = \<lparr>pd_content = content\<rparr> in
                     case schedulePost B s now1 now2 postData userId scheduledDate of
                       (Inr result, s') \<Rightarrow>
                         (\<lparr>res_status = 201, res_error = None, res_details = None,
                           res_message = Some ''Post scheduled successfully'',
                           res_data = Some \<lparr>sd_jobId = sr_jobId result,
                                             sd_scheduledTime = scheduledDate,
                                             sd_status = sr_status result,
                                             sd_postData = postData\<rparr>\<rparr>, s')
                     | (Inl (Error message), s') \<Rightarrow>
                         ((reject 500 ''Failed to schedule post'')
                            \<lparr>res_message := Some message\<rparr>, s'))))))"

text \<open>
  \<^verbatim>\<open>cancelScheduledPostById\<close>: the job must be in the caller's own listing before
  \<^verbatim>\<open>cancelScheduledPost\<close> is tried. On the fallback the two calls resolve without
  input or output, so that no timer runs between them.
\<close>

definition cancelScheduledPostById ::
  "'q bull \<Rightarrow> 'q state \<Rightarrow> string \<Rightarrow> int \<Rightarrow> cancel_result response \<times> 'q state" where
  "cancelScheduledPostById B s jobId userId =
     (if jobId = [] then (reject 400 ''Job ID is required'', s)
      else
        (let userScheduledPosts = getScheduledPosts B s userId in
         case find (\<lambda>p. sp_jobId p = jobId) userScheduledPosts of
           None \<Rightarrow>
             (reject 404 ''Scheduled post not found or does not belong to you'', s)
         | Some userJob \<Rightarrow>
             (case cancelScheduledPost B s jobId of
                (Inr result, s') \<Rightarrow>
                  (\<lparr>res_status = 200, res_error = None, res_details = None,
                    res_message = Some ''Scheduled post cancelled successfully'',
                    res_data = Some result\<rparr>, s')
              | (Inl (Error message), s') \<Rightarrow>
                  ((reject 500 ''Failed to cancel scheduled post'')
                     \<lparr>res_message := Some message\<rparr>, s'))))"

subsection \<open>Runs of the module\<close>

text \<open>
  What can happen to the module state after it is loaded: the initialisation finishes,
  a caller schedules or cancels, a timer fires, a pending \<^verbatim>\<open>createPost\<close> settles, or
  Bull moves its own queue on (a worker takes a job, a job completes). Listing and
  statistics change nothing and are no events.
\<close>

datatype 'q event =
    InitializeQueue bool "'q option"
  | SchedulePost int int post_data int jsnum
  | CancelScheduledPost string
  | TimerFires nat
  | CreatePostSettles nat outcome
  | QueueMoves 'q

fun step :: "'q bull \<Rightarrow> 'q state \<Rightarrow> 'q event \<Rightarrow> 'q state" where
  "step B s (InitializeQueue probe newQueue) = initializeQueue probe newQueue s"
| "step B s (SchedulePost now now2 postData userId scheduledTime) =
     snd (schedulePost B s now now2 postData userId scheduledTime)"
| "step B s (CancelScheduledPost jobId) = snd (cancelScheduledPost B s jobId)"
| "step B s (TimerFires i) = timer_fires i s"
| "step B s (CreatePostSettles i res) = createPost_settles i res s"
| "step B s (QueueMoves q') =
     (case scheduledPostsQueue s of
        Some q \<Rightarrow> s\<lparr>scheduledPostsQueue := Some q'\<rparr>
      | None \<Rightarrow> s)"

definition run :: "'q bull \<Rightarrow> 'q state \<Rightarrow> 'q event list \<Rightarrow> 'q state" where
  "run B s es = foldl (step B) s es"

text \<open>
  A Bull double for closed examples: the queue is the list of its jobs, all of them
  delayed; \<^verbatim>\<open>add\<close> keeps a job whose identifier is already there, and no call
  rejects.
\<close>

definition list_bull :: "bull_job list bull" where
  "list_bull =
     \<lparr>Queue_add = (\<lambda>name (postData, userId) delay jobId q.
         (case find (\<lambda>bjob. bj_id bjob = jobId) q of
            Some bjob \<Rightarrow> (bjob, q)
          | None \<Rightarrow>
              (let bjob = \<lparr>bj_id = jobId, bj_postData = postData, bj_userId = userId,
                           bj_delay = delay, bj_processedOn = None, bj_timestamp = 0\<rparr>
               in (bjob, q @ [bjob])))),
      Queue_getJob = (\<lambda>jobId q. Inr (find (\<lambda>bjob. bj_id bjob = jobId) q)),
      Job_remove = (\<lambda>bjob q. (None, filter (\<lambda>b. bj_id b \<noteq> bj_id bjob) q)),
      Queue_getJobs = (\<lambda>types q. if ''delayed'' \<in> set types then q else []),
      Queue_getWaiting = (\<lambda>q. []),
      Queue_getActive = (\<lambda>q. []),
      Queue_getCompleted = (\<lambda>q. []),
      Queue_getFailed = (\<lambda>q. []),
      Queue_getDelayed = (\<lambda>q. q)\<rparr>"

subsection \<open>The invariant of the job map\<close>

text \<open>
  What every entry of \<^verbatim>\<open>inMemoryJobs\<close> satisfies when the counter stands at \<open>c\<close>: it
  is stored under its own identifier, its status is one of the two strings the module
  ever writes, and its identifier was made from an earlier value of the counter.
\<close>

definition entry_ok :: "nat \<Rightarrow> string \<times> job \<Rightarrow> bool" where
  "entry_ok c e =
     (job_id (snd e) = fst e \<and>
      (job_status (snd e) = ''scheduled'' \<or> job_status (snd e) = ''failed'') \<and>
      (\<exists>n \<in> {0..<c}. fst e = ''memory-job-'' @ ToString (int n)))"

definition jobs_inv :: "'q state \<Rightarrow> bool" where
  "jobs_inv s =
     (distinct (map fst (inMemoryJobs s)) \<and>
      (\<forall>e \<in> set (inMemoryJobs s). entry_ok (jobIdCounter s) e))"

subsection \<open>A run used in the examples\<close>

text \<open>
  User 7 schedules a post at clock 1000 for time 6000 on the freshly loaded module
  (the fallback is in use, the probe has not answered). From there: the job is
  cancelled and its timer fires afterwards; or the timer fires with the entry in place,
  and then the job is cancelled while \<^verbatim>\<open>createPost\<close> is pending and \<^verbatim>\<open>createPost\<close>
  rejects;
  or the probe succeeds and Bull becomes the active backend; or user 8 schedules a
  second post.
\<close>

definition example_post :: post_data where
  "example_post = \<lparr>pd_content = ''hi''\<rparr>"

definition example_job :: job where
  "example_job =
     \<lparr>job_id = ''memory-job-1'', job_postData = example_post, job_userId = 7,
      job_scheduledTime = Some 6000, job_status = ''scheduled'', job_createdAt = 1000,
      job_error = None\<rparr>"

definition example_timer :: timer where
  "example_timer =
     \<lparr>t_jobId = ''memory-job-1'', t_postData = example_post, t_userId = 7,
      t_delay = Some 5000\<rparr>"

definition example_scheduled :: "bull_job list state" where
  "example_scheduled =
     snd (schedulePost list_bull module_load 1000 1000 example_post 7 (Some 6000))"

definition example_cancelled :: "bull_job list state" where
  "example_cancelled = snd (cancelScheduledPost list_bull example_scheduled ''memory-job-1'')"

definition example_cancelled_fired :: "bull_job list state" where
  "example_cancelled_fired = timer_fires 0 example_cancelled"

definition example_awaiting :: "bull_job list state" where
  "example_awaiting = timer_fires 0 example_scheduled"

definition example_cancelled_pending :: "bull_job list state" where
  "example_cancelled_pending =
     snd (cancelScheduledPost list_bull example_awaiting ''memory-job-1'')"

definition example_cancelled_rejected :: "bull_job list state" where
  "example_cancelled_rejected =
     createPost_settles 0 (Rejected (Error ''db down'')) example_cancelled_pending"

definition example_probe_succeeded :: "bull_job list state" where
  "example_probe_succeeded = initializeQueue True (Some []) example_scheduled"

definition example_two_scheduled :: "bull_job list state" where
  "example_two_scheduled =
     snd (schedulePost list_bull example_scheduled 2000 2001 example_post 8 (Some 9000))"

definition example_job2 :: job where
  "example_job2 =
     \<lparr>job_id = ''memory-job-2'', job_postData = example_post, job_userId = 8,
      job_scheduledTime = Some 9000, job_status = ''scheduled'', job_createdAt = 2001,
      job_error = None\<rparr>"

section \<open>Properties\<close>

subsection \<open>Evaluation helpers\<close>

lemma ToString_1: "ToString 1 = ''1''"
  by (simp add: ToString_def digits.simps digit_def)

lemma ToString_2: "ToString 2 = ''2''"
  by (simp add: ToString_def digits.simps digit_def)

lemma Date_new_in_range: "\<bar>t\<bar> \<le> 8640000000000000 \<Longrightarrow> Date_new (Some t) = Some t"
  by (simp add: Date_new_def TimeClip_def)

lemma Date_new_far_past: "Date_new (Some (- 8640000000000001)) = None"
  by (simp add: Date_new_def TimeClip_def)

lemma example_scheduled_eq:
  "example_scheduled =
     \<lparr>scheduledPostsQueue = None, isRedisAvailable = False,
      inMemoryJobs = [(''memory-job-1'', example_job)], jobIdCounter = 2,
      timers = [example_timer], awaiting = [], createPostCalls = []\<rparr>"
  by (simp add: example_scheduled_def schedulePost_def module_load_def activeQueue_def
        Date_new_in_range num_minus_def num_le_def Map_set_def ToString_1 Let_def
        example_job_def example_timer_def)

lemma example_cancelled_eq:
  "example_cancelled =
     \<lparr>scheduledPostsQueue = None, isRedisAvailable = False, inMemoryJobs = [],
      jobIdCounter = 2, timers = [example_timer], awaiting = [], createPostCalls = []\<rparr>"
  by (simp add: example_cancelled_def example_scheduled_eq cancelScheduledPost_def
        activeQueue_def startsWith_def Map_has_def Map_delete_def)

lemma example_awaiting_eq:
  "example_awaiting =
     \<lparr>scheduledPostsQueue = None, isRedisAvailable = False,
      inMemoryJobs = [(''memory-job-1'', example_job)], jobIdCounter = 2,
      timers = [], awaiting = [example_timer],
      createPostCalls = [\<lparr>pd_content = ''hi'', pd_user_id = 7\<rparr>]\<rparr>"
  by (simp add: example_awaiting_def example_scheduled_eq timer_fires_def callback_start_def
        example_timer_def example_post_def)

lemma example_probe_succeeded_eq:
  "example_probe_succeeded =
     \<lparr>scheduledPostsQueue = Some [], isRedisAvailable = True,
      inMemoryJobs = [(''memory-job-1'', example_job)], jobIdCounter = 2,
      timers = [example_timer], awaiting = [], createPostCalls = []\<rparr>"
  by (simp add: example_probe_succeeded_def example_scheduled_eq initializeQueue_def)

lemma example_two_scheduled_eq:
  "example_two_scheduled =
     \<lparr>scheduledPostsQueue = None, isRedisAvailable = False,
      inMemoryJobs = [(''memory-job-1'', example_job), (''memory-job-2'', example_job2)],
      jobIdCounter = 3,
      timers = [example_timer,
                \<lparr>t_jobId = ''memory-job-2'', t_postData = example_post, t_userId = 8,
                  t_delay = Some 7000\<rparr>],
      awaiting = [], createPostCalls = []\<rparr>"
  by (simp add: example_two_scheduled_def example_scheduled_eq schedulePost_def
        activeQueue_def Date_new_in_range num_minus_def num_le_def Map_set_def ToString_2
        Let_def example_job2_def)

lemma example_cancelled_pending_eq:
  "example_cancelled_pending =
     \<lparr>scheduledPostsQueue = None, isRedisAvailable = False, inMemoryJobs = [],
      jobIdCounter = 2, timers = [], awaiting = [example_timer],
      createPostCalls = [\<lparr>pd_content = ''hi'', pd_user_id = 7\<rparr>]\<rparr>"
  by (simp add: example_cancelled_pending_def example_awaiting_eq cancelScheduledPost_def
        activeQueue_def startsWith_def Map_has_def Map_delete_def)

lemma example_cancelled_rejected_eq:
  "example_cancelled_rejected =
     \<lparr>scheduledPostsQueue = None, isRedisAvailable = False, inMemoryJobs = [],
      jobIdCounter = 2, timers = [], awaiting = [],
      createPostCalls = [\<lparr>pd_content = ''hi'', pd_user_id = 7\<rparr>]\<rparr>"
  by (simp add: example_cancelled_rejected_def example_cancelled_pending_eq
        createPost_settles_def callback_resume_def example_timer_def Map_get_def)

subsection \<open>Facts about the job map\<close>

lemma Map_get_delete_same: "Map_get (Map_delete m k) k = None"
  by (simp add: Map_get_def Map_delete_def delete_conv')

lemma Map_get_delete_other: "k' \<noteq> k \<Longrightarrow> Map_get (Map_delete m k) k' = Map_get m k'"
  by (simp add: Map_get_def Map_delete_def)

lemma Map_get_set: "Map_get (Map_set m k v) k' = (if k' = k then Some v else Map_get m k')"
  by (simp add: Map_get_def Map_set_def update_conv')

lemma set_update_present:
  "map_of m k = Some v \<Longrightarrow> (k, v') \<in> set (AList.update k v' m)"
  by (induction m) (auto split: if_splits)

lemma Map_values_set_present:
  "Map_get m k = Some v \<Longrightarrow> v' \<in> set (Map_values (Map_set m k v'))"
  unfolding Map_get_def Map_values_def Map_set_def
  using set_update_present [of m k v v'] by force

lemma activeQueue_callback_resume [simp]:
  "activeQueue (callback_resume t res s) = activeQueue s"
  by (simp add: callback_resume_def activeQueue_def
           split: outcome.split error.split option.split)

lemma Map_delete_filter: "Map_delete m k = filter (\<lambda>e. fst e \<noteq> k) m"
  unfolding Map_delete_def AList.delete_eq
  by (rule filter_cong) auto

lemma Map_delete_absent: "k \<notin> fst ` set m \<Longrightarrow> Map_delete m k = m"
  by (simp add: Map_delete_def)

lemma inMemoryJobs_cancel:
  "inMemoryJobs (snd (cancelScheduledPost B s jobId)) =
     (if \<not> startsWith jobId ''memory-job-'' \<and> activeQueue s \<noteq> None
      then inMemoryJobs s else Map_delete (inMemoryJobs s) jobId)"
  by (auto simp: cancelScheduledPost_def Map_has_def map_of_eq_None_iff Map_delete_absent
           split: option.split sum.split prod.split)

subsection \<open>Decimal identifiers are injective\<close>

lemma digit_inj: "a < 10 \<Longrightarrow> b < 10 \<Longrightarrow> digit a = digit b \<Longrightarrow> a = b"
  by (simp add: digit_def split: if_splits; arith)

lemma digits_nonempty: "digits n \<noteq> []"
  by (subst digits.simps) simp

lemma digits_inj: "digits m = digits n \<Longrightarrow> m = n"
proof (induction m arbitrary: n rule: digits.induct)
  case (1 m)
  show ?case
  proof (cases "m < 10")
    case small_m: True
    show ?thesis
    proof (cases "n < 10")
      case True
      with small_m "1.prems" show ?thesis
        by (simp add: digits.simps [of m] digits.simps [of n] digit_inj)
    next
      case False
      with small_m "1.prems" digits_nonempty [of "n div 10"] show ?thesis
        by (simp add: digits.simps [of m] digits.simps [of n])
    qed
  next
    case big_m: False
    show ?thesis
    proof (cases "n < 10")
      case True
      with big_m "1.prems" digits_nonempty [of "m div 10"] show ?thesis
        by (simp add: digits.simps [of m] digits.simps [of n])
    next
      case False
      with big_m "1.prems" have eq: "digits (m div 10) = digits (n div 10)"
        and d: "digit (m mod 10) = digit (n mod 10)"
        by (simp_all add: digits.simps [of m] digits.simps [of n])
      from "1.IH" [OF big_m eq] have "m div 10 = n div 10" .
      moreover from d have "m mod 10 = n mod 10"
        by (intro digit_inj) simp_all
      ultimately show ?thesis
        by (metis div_mult_mod_eq)
    qed
  qed
qed

lemma ToString_nat_inj: "ToString (int a) = ToString (int b) \<Longrightarrow> a = b"
  by (simp add: ToString_def digits_inj)

lemma memory_job_id_inj:
  "''memory-job-'' @ ToString (int a) = ''memory-job-'' @ ToString (int b) \<Longrightarrow> a = b"
  by (simp add: ToString_nat_inj)

subsection \<open>The invariant holds along every run\<close>

lemma set_update_subset: "set (AList.update k v m) \<subseteq> insert (k, v) (set m)"
  by (induction m) auto

lemma set_delete_subset: "set (AList.delete k m) \<subseteq> set m"
  by (auto simp: AList.delete_eq)

lemma entry_ok_mono: "entry_ok c e \<Longrightarrow> c \<le> c' \<Longrightarrow> entry_ok c' e"
  unfolding entry_ok_def by (elim conjE bexE) (intro conjI bexI, auto)

lemma jobs_inv_module_load: "jobs_inv module_load"
  by (simp add: jobs_inv_def module_load_def)

lemma jobs_inv_sameI:
  assumes "jobs_inv s" and "inMemoryJobs s' = inMemoryJobs s"
    and "jobIdCounter s \<le> jobIdCounter s'"
  shows "jobs_inv s'"
  using assms by (auto simp: jobs_inv_def intro: entry_ok_mono)

lemma jobs_inv_deleteI:
  assumes "jobs_inv s" and "inMemoryJobs s' = Map_delete (inMemoryJobs s) k"
    and "jobIdCounter s \<le> jobIdCounter s'"
  shows "jobs_inv s'"
proof -
  have "set (inMemoryJobs s') \<subseteq> set (inMemoryJobs s)"
    using assms(2) by (simp add: Map_delete_def set_delete_subset)
  moreover have "distinct (map fst (inMemoryJobs s'))"
    using assms(1,2) by (simp add: Map_delete_def jobs_inv_def distinct_delete)
  ultimately show ?thesis
    using assms(1,3) unfolding jobs_inv_def by (auto intro: entry_ok_mono)
qed

lemma jobs_inv_setI:
  assumes "jobs_inv s" and "inMemoryJobs s' = Map_set (inMemoryJobs s) k j"
    and "entry_ok (jobIdCounter s') (k, j)" and "jobIdCounter s \<le> jobIdCounter s'"
  shows "jobs_inv s'"
proof -
  have "set (inMemoryJobs s') \<subseteq> insert (k, j) (set (inMemoryJobs s))"
    using assms(2) by (simp add: Map_set_def set_update_subset)
  moreover have "distinct (map fst (inMemoryJobs s'))"
    using assms(1,2) by (simp add: Map_set_def jobs_inv_def distinct_update)
  moreover have "\<forall>e \<in> set (inMemoryJobs s). entry_ok (jobIdCounter s') e"
    using assms(1,4) by (auto simp: jobs_inv_def intro: entry_ok_mono)
  ultimately show ?thesis
    using assms(3) unfolding jobs_inv_def by auto
qed

lemma jobs_inv_initializeQueue:
  "jobs_inv s \<Longrightarrow> jobs_inv (initializeQueue probe newQueue s)"
  by (erule jobs_inv_sameI) (simp_all add: initializeQueue_def Let_def split: option.split)

lemma entry_ok_new:
  "entry_ok (Suc c)
     (''memory-job-'' @ ToString (int c),
      \<lparr>job_id = ''memory-job-'' @ ToString (int c), job_postData = pd, job_userId = u,
       job_scheduledTime = st, job_status = ''scheduled'', job_createdAt = t,
       job_error = None\<rparr>)"
  unfolding entry_ok_def by (intro conjI bexI [of _ c]) simp_all

lemma jobs_inv_schedulePost:
  assumes "jobs_inv s"
  shows "jobs_inv (snd (schedulePost B s now now2 postData userId scheduledTime))"
proof (cases "num_le (num_minus (Date_new scheduledTime) (Some now)) (Some 0)")
  case True
  then show ?thesis using assms by (simp add: schedulePost_def)
next
  case late: False
  show ?thesis
  proof (cases "activeQueue s")
    case None
    with late entry_ok_new [of "jobIdCounter s" postData userId scheduledTime now2]
    show ?thesis
      by (intro jobs_inv_setI [OF assms]) (simp_all add: schedulePost_def Let_def)
  next
    case (Some q)
    with late show ?thesis
      by (intro jobs_inv_sameI [OF assms])
         (simp_all add: schedulePost_def Let_def split: prod.split)
  qed
qed

lemma jobs_inv_cancelScheduledPost:
  assumes "jobs_inv s"
  shows "jobs_inv (snd (cancelScheduledPost B s jobId))"
proof (cases "if \<not> startsWith jobId ''memory-job-'' then activeQueue s else None")
  case None
  show ?thesis
  proof (cases "Map_has (inMemoryJobs s) jobId")
    case True
    with None show ?thesis
      by (intro jobs_inv_deleteI [OF assms, of _ jobId])
         (simp_all add: cancelScheduledPost_def)
  next
    case False
    with None show ?thesis using assms by (simp add: cancelScheduledPost_def)
  qed
next
  case (Some q)
  then show ?thesis
    by (intro jobs_inv_sameI [OF assms])
       (simp_all add: cancelScheduledPost_def split: option.split sum.split prod.split)
qed

lemma jobs_inv_callback_resume:
  assumes "jobs_inv s"
  shows "jobs_inv (callback_resume t res s)"
proof (cases res)
  case Resolved
  then show ?thesis
    by (intro jobs_inv_deleteI [OF assms, of _ "t_jobId t"]) (simp_all add: callback_resume_def)
next
  case (Rejected err)
  obtain message where err: "err = Error message" by (cases err)
  show ?thesis
  proof (cases "Map_get (inMemoryJobs s) (t_jobId t)")
    case None
    with Rejected err show ?thesis using assms by (simp add: callback_resume_def)
  next
    case (Some j)
    then have "(t_jobId t, j) \<in> set (inMemoryJobs s)"
      by (simp add: Map_get_def map_of_SomeD)
    with assms have "entry_ok (jobIdCounter s) (t_jobId t, j)"
      by (auto simp: jobs_inv_def)
    then have "entry_ok (jobIdCounter s)
                 (t_jobId t, j\<lparr>job_status := ''failed'', job_error := Some message\<rparr>)"
      by (simp add: entry_ok_def)
    with Rejected err Some show ?thesis
      by (intro jobs_inv_setI [OF assms, of _ "t_jobId t"
                "j\<lparr>job_status := ''failed'', job_error := Some message\<rparr>"])
         (simp_all add: callback_resume_def)
  qed
qed

lemma jobs_inv_step: "jobs_inv s \<Longrightarrow> jobs_inv (step B s e)"
proof (cases e)
  case (TimerFires i)
  assume "jobs_inv s"
  then show ?thesis unfolding TimerFires
    by (rule jobs_inv_sameI) (simp_all add: timer_fires_def callback_start_def)
next
  case (CreatePostSettles i res)
  assume inv: "jobs_inv s"
  show ?thesis
  proof (cases "i < length (awaiting s)")
    case True
    have "jobs_inv (s\<lparr>awaiting := take i (awaiting s) @ drop (Suc i) (awaiting s)\<rparr>)"
      using inv by (rule jobs_inv_sameI) simp_all
    then show ?thesis unfolding CreatePostSettles
      using True by (simp add: createPost_settles_def jobs_inv_callback_resume)
  next
    case False
    then show ?thesis unfolding CreatePostSettles
      using inv by (simp add: createPost_settles_def)
  qed
next
  case (QueueMoves q')
  assume "jobs_inv s"
  then show ?thesis unfolding QueueMoves
    by (rule jobs_inv_sameI) (simp_all split: option.split)
qed (simp_all add: jobs_inv_initializeQueue jobs_inv_schedulePost jobs_inv_cancelScheduledPost)

lemma jobs_inv_run: "jobs_inv s \<Longrightarrow> jobs_inv (run B s es)"
  unfolding run_def by (induction es arbitrary: s) (simp_all add: jobs_inv_step)

lemma jobs_inv_reachable: "jobs_inv (run B module_load es)"
  by (rule jobs_inv_run [OF jobs_inv_module_load])

lemma distinct_map_eq:
  "distinct (map f xs) \<Longrightarrow> x \<in> set xs \<Longrightarrow> y \<in> set xs \<Longrightarrow> f x = f y \<Longrightarrow> x = y"
  by (meson distinct_map inj_onD)

lemma distinct_job_ids:
  assumes "jobs_inv s"
  shows "distinct (map job_id (Map_values (inMemoryJobs s)))"
proof -
  have "map job_id (Map_values (inMemoryJobs s)) = map fst (inMemoryJobs s)"
    using assms by (auto simp: jobs_inv_def entry_ok_def Map_values_def)
  with assms show ?thesis by (simp add: jobs_inv_def)
qed

lemma reachable_distinct_job_ids:
  "distinct (map job_id (Map_values (inMemoryJobs (run B module_load es))))"
  by (rule distinct_job_ids [OF jobs_inv_reachable])

subsection \<open>The backend flag changes only in the initialisation\<close>

lemma qs_type_getQueueStats:
  "qs_type (getQueueStats B s)
     = (if isRedisAvailable s \<and> scheduledPostsQueue s \<noteq> None then ''redis''
        else ''in-memory'')"
  by (simp add: getQueueStats_def activeQueue_def Let_def split: option.split)

lemma isRedisAvailable_schedulePost:
  "isRedisAvailable (snd (schedulePost B s now now2 postData userId scheduledTime))
     = isRedisAvailable s"
  by (simp add: schedulePost_def Let_def split: option.split prod.split)

lemma isRedisAvailable_cancelScheduledPost:
  "isRedisAvailable (snd (cancelScheduledPost B s jobId)) = isRedisAvailable s"
  by (simp add: cancelScheduledPost_def split: option.split sum.split prod.split)

lemma isRedisAvailable_callback_resume:
  "isRedisAvailable (callback_resume t res s) = isRedisAvailable s"
  by (simp add: callback_resume_def split: outcome.split error.split option.split)

lemma isRedisAvailable_step:
  assumes "\<forall>probe nq. e \<noteq> InitializeQueue probe nq"
  shows "isRedisAvailable (step B s e) = isRedisAvailable s"
proof (cases e)
  case (InitializeQueue probe nq)
  with assms show ?thesis by blast
qed (simp_all add: isRedisAvailable_schedulePost isRedisAvailable_cancelScheduledPost
        isRedisAvailable_callback_resume timer_fires_def callback_start_def
        createPost_settles_def split: option.split)

lemma isRedisAvailable_run:
  "(\<forall>probe nq. InitializeQueue probe nq \<notin> set es) \<Longrightarrow>
     isRedisAvailable (run B s es) = isRedisAvailable s"
  unfolding run_def
proof (induction es arbitrary: s)
  case Nil
  show ?case by simp
next
  case (Cons e es)
  from Cons.prems have e: "\<forall>probe nq. e \<noteq> InitializeQueue probe nq"
    and es: "\<forall>probe nq. InitializeQueue probe nq \<notin> set es"
    by auto
  show ?case
    by (simp add: Cons.IH [OF es] isRedisAvailable_step [OF e])
qed

subsection \<open>The counter never decreases\<close>

lemma jobIdCounter_step: "jobIdCounter s \<le> jobIdCounter (step B s e)"
  by (cases e)
     (simp_all add: initializeQueue_def schedulePost_def cancelScheduledPost_def
        timer_fires_def callback_start_def createPost_settles_def callback_resume_def
        Let_def split: option.split prod.split sum.split outcome.split error.split)

lemma jobIdCounter_run: "jobIdCounter s \<le> jobIdCounter (run B s es)"
  unfolding run_def
proof (induction es arbitrary: s)
  case Nil
  show ?case by simp
next
  case (Cons e es)
  have "jobIdCounter s \<le> jobIdCounter (step B s e)" by (rule jobIdCounter_step)
  also have "\<dots> \<le> jobIdCounter (foldl (step B) (step B s e) es)" by (rule Cons.IH)
  finally show ?case by simp
qed

lemma schedulePost_fallback:
  assumes "activeQueue s = None"
    and "schedulePost B s now now2 postData userId scheduledTime = (Inr r, s')"
  shows "sr_jobId r = ''memory-job-'' @ ToString (int (jobIdCounter s))"
    and "jobIdCounter s' = jobIdCounter s + 1"
  using assms by (auto simp: schedulePost_def Let_def split: if_splits)

lemma fresh_job_id:
  assumes "jobs_inv s"
  shows "\<not> Map_has (inMemoryJobs s) (''memory-job-'' @ ToString (int (jobIdCounter s)))"
proof
  assume "Map_has (inMemoryJobs s) (''memory-job-'' @ ToString (int (jobIdCounter s)))"
  then obtain j where "(''memory-job-'' @ ToString (int (jobIdCounter s)), j) \<in> set (inMemoryJobs s)"
    by (auto simp: Map_has_def dest: map_of_SomeD)
  with assms have "entry_ok (jobIdCounter s) (''memory-job-'' @ ToString (int (jobIdCounter s)), j)"
    by (auto simp: jobs_inv_def)
  then obtain n where "n < jobIdCounter s"
    and "''memory-job-'' @ ToString (int (jobIdCounter s)) = ''memory-job-'' @ ToString (int n)"
    by (auto simp: entry_ok_def)
  then show False
    using memory_job_id_inj by blast
qed

subsection \<open>Counting by status\<close>

lemma length_two_filters:
  "\<forall>x \<in> set xs. (P x \<or> Q x) \<and> \<not> (P x \<and> Q x) \<Longrightarrow>
     length xs = length (filter Q xs) + length (filter P xs)"
  by (induction xs) auto

lemma reachable_statuses:
  "j \<in> set (Map_values (inMemoryJobs (run B module_load es))) \<Longrightarrow>
     job_status j = ''scheduled'' \<or> job_status j = ''failed''"
  using jobs_inv_reachable [of B es]
  by (auto simp: jobs_inv_def entry_ok_def Map_values_def)

lemma createPost_settles_example:
  "createPost_settles 0 (Rejected (Error ''db down'')) example_awaiting =
     \<lparr>scheduledPostsQueue = None, isRedisAvailable = False,
      inMemoryJobs = [(''memory-job-1'',
                       example_job\<lparr>job_status := ''failed'', job_error := Some ''db down''\<rparr>)],
      jobIdCounter = 2, timers = [], awaiting = [],
      createPostCalls = [\<lparr>pd_content = ''hi'', pd_user_id = 7\<rparr>]\<rparr>"
  by (simp add: createPost_settles_def callback_resume_def example_awaiting_eq
        example_timer_def Map_get_def Map_set_def)

lemma run_example_scheduled:
  "run list_bull module_load [SchedulePost 1000 1000 example_post 7 (Some 6000)]
     = example_scheduled"
  by (simp add: run_def example_scheduled_def)

subsection \<open>What \<^verbatim>\<open>cancelScheduledPost\<close> returns\<close>

lemma Map_has_iff: "Map_has m k \<longleftrightarrow> k \<in> fst ` set m"
  by (simp add: Map_has_def map_of_eq_None_iff)

lemma cancel_result:
  "fst (cancelScheduledPost B s jobId) =
     (case (if \<not> startsWith jobId ''memory-job-'' then activeQueue s else None) of
        Some q \<Rightarrow>
          (case Queue_getJob B jobId q of
             Inl err \<Rightarrow> Inl err
           | Inr None \<Rightarrow> Inl (Error ''Scheduled post not found'')
           | Inr (Some bjob) \<Rightarrow>
               (case fst (Job_remove B bjob q) of
                  Some err \<Rightarrow> Inl err
                | None \<Rightarrow>
                    Inr \<lparr>cr_jobId = jobId, cr_status = ''cancelled'',
                         cr_message = ''Scheduled post cancelled successfully''\<rparr>))
      | None \<Rightarrow>
          (if jobId \<in> fst ` set (inMemoryJobs s) then
             Inr \<lparr>cr_jobId = jobId, cr_status = ''cancelled'',
                  cr_message = ''Scheduled post cancelled successfully (in-memory)''\<rparr>
           else Inl (Error ''Scheduled post not found'')))"
  by (simp add: cancelScheduledPost_def Map_has_iff
           split: option.split sum.split prod.split)

lemma find_listing_fallback:
  assumes "jobs_inv s"
  shows "(find (\<lambda>p. sp_jobId p = jobId)
            (map memory_view (filter (\<lambda>j. job_userId j = userId) (Map_values (inMemoryJobs s))))
          = None)
         \<longleftrightarrow> \<not> (\<exists>j. (jobId, j) \<in> set (inMemoryJobs s) \<and> job_userId j = userId)"
proof -
  have key: "job_id j = k" if "(k, j) \<in> set (inMemoryJobs s)" for k j
    using assms that by (auto simp: jobs_inv_def entry_ok_def)
  show ?thesis
    unfolding find_None_iff
  proof
    assume none: "\<not> (\<exists>p. p \<in> set (map memory_view
                     (filter (\<lambda>j. job_userId j = userId) (Map_values (inMemoryJobs s))))
                   \<and> sp_jobId p = jobId)"
    show "\<not> (\<exists>j. (jobId, j) \<in> set (inMemoryJobs s) \<and> job_userId j = userId)"
    proof
      assume "\<exists>j. (jobId, j) \<in> set (inMemoryJobs s) \<and> job_userId j = userId"
      then obtain j where j: "(jobId, j) \<in> set (inMemoryJobs s)" "job_userId j = userId"
        by blast
      then have "memory_view j \<in> set (map memory_view
                     (filter (\<lambda>j. job_userId j = userId) (Map_values (inMemoryJobs s))))"
        by (force simp: Map_values_def)
      moreover have "sp_jobId (memory_view j) = jobId"
        using key [OF j(1)] by (simp add: memory_view_def)
      ultimately show False using none by blast
    qed
  next
    assume none: "\<not> (\<exists>j. (jobId, j) \<in> set (inMemoryJobs s) \<and> job_userId j = userId)"
    show "\<not> (\<exists>p. p \<in> set (map memory_view
                     (filter (\<lambda>j. job_userId j = userId) (Map_values (inMemoryJobs s))))
                   \<and> sp_jobId p = jobId)"
    proof
      assume "\<exists>p. p \<in> set (map memory_view
                     (filter (\<lambda>j. job_userId j = userId) (Map_values (inMemoryJobs s))))
                   \<and> sp_jobId p = jobId"
      then obtain k j where "(k, j) \<in> set (inMemoryJobs s)" "job_userId j = userId"
        "sp_jobId (memory_view j) = jobId"
        by (auto simp: Map_values_def)
      with key [of k j] none show False
        by (auto simp: memory_view_def)
    qed
  qed
qed

lemma cancelById_fallback:
  assumes inv: "jobs_inv s" and fb: "activeQueue s = None" and ne: "jobId \<noteq> []"
  shows "fst (cancelScheduledPostById B s jobId userId) =
     (if \<exists>j. (jobId, j) \<in> set (inMemoryJobs s) \<and> job_userId j = userId then
        \<lparr>res_status = 200, res_error = None, res_details = None,
         res_message = Some ''Scheduled post cancelled successfully'',
         res_data = Some \<lparr>cr_jobId = jobId, cr_status = ''cancelled'',
                           cr_message = ''Scheduled post cancelled successfully (in-memory)''\<rparr>\<rparr>
      else reject 404 ''Scheduled post not found or does not belong to you'')"
proof (cases "\<exists>j. (jobId, j) \<in> set (inMemoryJobs s) \<and> job_userId j = userId")
  case False
  with find_listing_fallback [OF inv, of jobId userId]
  have "find (\<lambda>p. sp_jobId p = jobId) (getScheduledPosts B s userId) = None"
    using fb by (simp add: getScheduledPosts_def)
  moreover from False
  have "(\<exists>j. (jobId, j) \<in> set (inMemoryJobs s) \<and> job_userId j = userId) = False"
    by blast
  ultimately show ?thesis
    using ne by (simp only: cancelScheduledPostById_def Let_def if_False option.case fst_conv)
next
  case True
  with find_listing_fallback [OF inv, of jobId userId]
  obtain userJob where found:
    "find (\<lambda>p. sp_jobId p = jobId) (getScheduledPosts B s userId) = Some userJob"
    using fb by (auto simp: getScheduledPosts_def)
  from True have "jobId \<in> fst ` set (inMemoryJobs s)" by force
  with fb have "fst (cancelScheduledPost B s jobId)
      = Inr \<lparr>cr_jobId = jobId, cr_status = ''cancelled'',
             cr_message = ''Scheduled post cancelled successfully (in-memory)''\<rparr>"
    by (simp add: cancel_result)
  then obtain s' where "cancelScheduledPost B s jobId
      = (Inr \<lparr>cr_jobId = jobId, cr_status = ''cancelled'',
              cr_message = ''Scheduled post cancelled successfully (in-memory)''\<rparr>, s')"
    by (metis prod.collapse)
  moreover from True
  have "(\<exists>j. (jobId, j) \<in> set (inMemoryJobs s) \<and> job_userId j = userId) = True"
    by blast
  ultimately show ?thesis
    using ne found
    by (simp only: cancelScheduledPostById_def Let_def if_False if_True option.case
          prod.case sum.case fst_conv)
qed

lemma find_Some_set: "find P xs = Some x \<Longrightarrow> x \<in> set xs \<and> P x"
  by (induction xs) (auto split: if_splits)

lemma cancelById_status:
  "find (\<lambda>p. sp_jobId p = jobId) (getScheduledPosts B s userId) = Some userJob \<Longrightarrow>
     jobId \<noteq> [] \<Longrightarrow>
     res_status (fst (cancelScheduledPostById B s jobId userId)) = 200
     \<or> res_status (fst (cancelScheduledPostById B s jobId userId)) = 500"
proof -
  assume f: "find (\<lambda>p. sp_jobId p = jobId) (getScheduledPosts B s userId) = Some userJob"
    and ne: "jobId \<noteq> []"
  obtain r s' where c: "cancelScheduledPost B s jobId = (r, s')"
    by (cases "cancelScheduledPost B s jobId")
  show ?thesis
  proof (cases r)
    case (Inl e)
    obtain m where "e = Error m" by (cases e)
    with Inl c f ne show ?thesis
      by (simp add: cancelScheduledPostById_def reject_def)
  next
    case (Inr res)
    with c f ne show ?thesis
      by (simp add: cancelScheduledPostById_def)
  qed
qed

lemma cancelById_not_listed:
  assumes "jobId \<noteq> []"
  shows "(res_status (fst (cancelScheduledPostById B s jobId userId)) = 404)
         \<longleftrightarrow> jobId \<notin> sp_jobId ` set (getScheduledPosts B s userId)"
proof (cases "find (\<lambda>p. sp_jobId p = jobId) (getScheduledPosts B s userId)")
  case None
  then have "jobId \<notin> sp_jobId ` set (getScheduledPosts B s userId)"
    by (auto simp: find_None_iff)
  with None assms show ?thesis
    by (simp add: cancelScheduledPostById_def reject_def)
next
  case (Some userJob)
  from find_Some_set [OF Some]
  have "jobId \<in> sp_jobId ` set (getScheduledPosts B s userId)"
    by force
  moreover from cancelById_status [OF Some assms]
  have "res_status (fst (cancelScheduledPostById B s jobId userId)) \<noteq> 404"
    by auto
  ultimately show ?thesis by simp
qed

subsection \<open>Cancelling and the timer\<close>

lemma cancel_keeps_timers:
  "timers (snd (cancelScheduledPost B s jobId)) = timers s"
  by (simp add: cancelScheduledPost_def split: option.split sum.split prod.split)

lemma timer_fires_calls_createPost:
  "i < length (timers s) \<Longrightarrow>
     createPostCalls (timer_fires i s)
       = createPostCalls s @
           [\<lparr>pd_content = pd_content (t_postData (timers s ! i)),
             pd_user_id = t_userId (timers s ! i)\<rparr>]"
  by (simp add: timer_fires_def callback_start_def)

lemma cancelled_job_not_listed:
  assumes inv: "jobs_inv s" and fb: "activeQueue s = None"
  shows "jobId \<notin> sp_jobId ` set (getScheduledPosts B (snd (cancelScheduledPost B s jobId)) userId)"
proof -
  let ?s' = "snd (cancelScheduledPost B s jobId)"
  have "?s' = s \<or> ?s' = s\<lparr>inMemoryJobs := Map_delete (inMemoryJobs s) jobId\<rparr>"
    using fb by (simp add: cancelScheduledPost_def)
  then have fb': "activeQueue ?s' = None"
    using fb by (auto simp: activeQueue_def)
  have inv': "jobs_inv ?s'" by (rule jobs_inv_cancelScheduledPost [OF inv])
  have gone: "jobId \<notin> fst ` set (inMemoryJobs ?s')"
  proof (cases "jobId \<in> fst ` set (inMemoryJobs s)")
    case True
    with fb have "inMemoryJobs ?s' = Map_delete (inMemoryJobs s) jobId"
      by (simp add: cancelScheduledPost_def Map_has_iff)
    then show ?thesis
      by (simp add: Map_delete_def delete_notin_dom)
  next
    case False
    with fb have "inMemoryJobs ?s' = inMemoryJobs s"
      by (simp add: cancelScheduledPost_def Map_has_iff)
    with False show ?thesis by simp
  qed
  show ?thesis
  proof
    assume "jobId \<in> sp_jobId ` set (getScheduledPosts B ?s' userId)"
    with fb' obtain k j where kj: "(k, j) \<in> set (inMemoryJobs ?s')" and "job_id j = jobId"
      by (auto simp: getScheduledPosts_def Map_values_def memory_view_def)
    moreover from inv' kj have "job_id j = k"
      by (auto simp: jobs_inv_def entry_ok_def)
    ultimately have "jobId \<in> fst ` set (inMemoryJobs ?s')" by force
    with gone show False by contradiction
  qed
qed

subsection \<open>Past times that a \<^verbatim>\<open>Date\<close> can hold\<close>

text \<open>
  For a scheduled time within the range of a \<^verbatim>\<open>Date\<close> and at or before the clock
  reading, \<^verbatim>\<open>schedulePost\<close> throws \<^verbatim>\<open>Error('Scheduled time must be in the future')\<close>
  and leaves the module state as it was, on either backend, and the REST handler
  answers 400 before it reaches \<^verbatim>\<open>schedulePost\<close>.
\<close>

lemma past_time_in_range_rejected:
  "\<bar>scheduledTime\<bar> \<le> 8640000000000000 \<Longrightarrow> scheduledTime \<le> now \<Longrightarrow>
     schedulePost B s now now2 postData userId (Some scheduledTime)
       = (Inl (Error ''Scheduled time must be in the future''), s)
     \<and> res_status (fst (scheduleNewPost B validate s now now1 now2' userId content
                          (Truthy (Some scheduledTime)))) = 400
     \<and> snd (scheduleNewPost B validate s now now1 now2' userId content
              (Truthy (Some scheduledTime))) = s"
  by (simp add: schedulePost_def scheduleNewPost_def Date_new_in_range num_minus_def
        num_le_def reject_def split: option.split)

subsection \<open>Cancelling on the fallback\<close>

text \<open>
  Claim C1, evaluated on the code. User 7 schedules a post on the fallback and cancels
  it while its status is \<^verbatim>\<open>'scheduled'\<close>. The cancellation succeeds and the job leaves
  the listing, but the timer stays armed: when it fires, the callback calls
  \<^verbatim>\<open>Post.createPost\<close> with the cancelled job's content without looking at
  \<^verbatim>\<open>inMemoryJobs\<close>. The claim holds for the listing and fails for the publication.
\<close>

theorem cancelled_job_is_still_published:
  "fst (schedulePost list_bull module_load 1000 1000 example_post 7 (Some 6000))
     = Inr \<lparr>sr_jobId = ''memory-job-1'', sr_scheduledTime = Some 6000,
            sr_status = ''scheduled'',
            sr_message = ''Post scheduled successfully (in-memory)''\<rparr>
   \<and> map sp_status (getScheduledPosts list_bull example_scheduled 7) = [''scheduled'']
   \<and> fst (cancelScheduledPost list_bull example_scheduled ''memory-job-1'')
     = Inr \<lparr>cr_jobId = ''memory-job-1'', cr_status = ''cancelled'',
            cr_message = ''Scheduled post cancelled successfully (in-memory)''\<rparr>
   \<and> getScheduledPosts list_bull example_cancelled 7 = []
   \<and> createPostCalls example_cancelled = []
   \<and> createPostCalls example_cancelled_fired = [\<lparr>pd_content = ''hi'', pd_user_id = 7\<rparr>]"
proof -
  have "fst (schedulePost list_bull module_load 1000 1000 example_post 7 (Some 6000))
     = Inr \<lparr>sr_jobId = ''memory-job-1'', sr_scheduledTime = Some 6000,
            sr_status = ''scheduled'',
            sr_message = ''Post scheduled successfully (in-memory)''\<rparr>"
    by (simp add: schedulePost_def module_load_def activeQueue_def Date_new_in_range
          num_minus_def num_le_def ToString_1 Let_def)
  moreover have "map sp_status (getScheduledPosts list_bull example_scheduled 7) = [''scheduled'']"
    by (simp add: example_scheduled_eq getScheduledPosts_def activeQueue_def Map_values_def
          memory_view_def example_job_def)
  moreover have "fst (cancelScheduledPost list_bull example_scheduled ''memory-job-1'')
     = Inr \<lparr>cr_jobId = ''memory-job-1'', cr_status = ''cancelled'',
            cr_message = ''Scheduled post cancelled successfully (in-memory)''\<rparr>"
    by (simp add: example_scheduled_eq cancelScheduledPost_def activeQueue_def startsWith_def
          Map_has_def)
  moreover have "getScheduledPosts list_bull example_cancelled 7 = []"
    by (simp add: example_cancelled_eq getScheduledPosts_def activeQueue_def Map_values_def)
  moreover have "createPostCalls example_cancelled = []"
    by (simp add: example_cancelled_eq)
  moreover have "createPostCalls example_cancelled_fired = [\<lparr>pd_content = ''hi'', pd_user_id = 7\<rparr>]"
    by (simp add: example_cancelled_fired_def example_cancelled_eq timer_fires_def
          callback_start_def example_timer_def example_post_def)
  ultimately show ?thesis by blast
qed

subsection \<open>Rejection of a time that is not in the future\<close>

text \<open>
  Claim C2, evaluated on the code. The time 8640000000000001 ms before the epoch is
  earlier than the clock reading 1000 and further back than a \<^verbatim>\<open>Date\<close> can hold:
  \<^verbatim>\<open>new Date(scheduledTime)\<close> is the Invalid Date, the delay is NaN, and both
  \<^verbatim>\<open>delay <= 0\<close> in \<^verbatim>\<open>schedulePost\<close> and \<^verbatim>\<open>scheduledDate <= now\<close> in the REST handler are
  false. \<^verbatim>\<open>schedulePost\<close> stores the job and arms its timer with the NaN delay, and the
  handler answers 201. The claim fails for such a time.
\<close>

theorem far_past_time_is_scheduled:
  "(- 8640000000000001 :: int) \<le> 1000
   \<and> schedulePost list_bull module_load 1000 1000 example_post 7 (Some (- 8640000000000001))
     = (Inr \<lparr>sr_jobId = ''memory-job-1'', sr_scheduledTime = Some (- 8640000000000001),
             sr_status = ''scheduled'',
             sr_message = ''Post scheduled successfully (in-memory)''\<rparr>,
        \<lparr>scheduledPostsQueue = None, isRedisAvailable = False,
         inMemoryJobs = [(''memory-job-1'',
            \<lparr>job_id = ''memory-job-1'', job_postData = example_post, job_userId = 7,
             job_scheduledTime = Some (- 8640000000000001), job_status = ''scheduled'',
             job_createdAt = 1000, job_error = None\<rparr>)],
         jobIdCounter = 2,
         timers = [\<lparr>t_jobId = ''memory-job-1'', t_postData = example_post, t_userId = 7,
                    t_delay = None\<rparr>],
         awaiting = [], createPostCalls = []\<rparr>)
   \<and> res_status (fst (scheduleNewPost list_bull (\<lambda>c. None) module_load 1000 1000 1000 7 ''hi''
                        (Truthy (Some (- 8640000000000001))))) = 201
   \<and> map fst (inMemoryJobs (snd (scheduleNewPost list_bull (\<lambda>c. None) module_load 1000 1000
                                   1000 7 ''hi'' (Truthy (Some (- 8640000000000001))))))
     = [''memory-job-1'']"
  by (simp add: schedulePost_def scheduleNewPost_def module_load_def activeQueue_def
        Date_new_far_past Date_new_def TimeClip_def num_minus_def num_le_def num_gt_def
        Map_set_def ToString_1 Let_def)

subsection \<open>The one-year horizon\<close>




subsection \<open>The outcome of the due-time execution\<close>

text \<open>
  User 7's timer has fired and \<^verbatim>\<open>createPost\<close> is pending; the job is cancelled, which
  succeeds, and then \<^verbatim>\<open>createPost\<close> rejects. The \<^verbatim>\<open>catch\<close> block finds no entry:
  nothing is retained and the owner's listing is empty.
\<close>

theorem cancel_while_pending_leaves_no_failure:
  "inMemoryJobs example_awaiting = [(''memory-job-1'', example_job)]
   \<and> awaiting example_awaiting = [example_timer]
   \<and> fst (cancelScheduledPost list_bull example_awaiting ''memory-job-1'')
       = Inr \<lparr>cr_jobId = ''memory-job-1'', cr_status = ''cancelled'',
              cr_message = ''Scheduled post cancelled successfully (in-memory)''\<rparr>
   \<and> awaiting example_cancelled_pending = [example_timer]
   \<and> inMemoryJobs (createPost_settles 0 (Rejected (Error ''db down''))
                      example_cancelled_pending) = []
   \<and> getScheduledPosts list_bull
         (createPost_settles 0 (Rejected (Error ''db down'')) example_cancelled_pending) 7
       = []"
proof -
  have "inMemoryJobs example_awaiting = [(''memory-job-1'', example_job)]"
    and "awaiting example_awaiting = [example_timer]"
    by (simp_all add: example_awaiting_eq)
  moreover have "fst (cancelScheduledPost list_bull example_awaiting ''memory-job-1'')
       = Inr \<lparr>cr_jobId = ''memory-job-1'', cr_status = ''cancelled'',
              cr_message = ''Scheduled post cancelled successfully (in-memory)''\<rparr>"
    by (simp add: example_awaiting_eq cancelScheduledPost_def activeQueue_def startsWith_def
          Map_has_def)
  moreover have "awaiting example_cancelled_pending = [example_timer]"
    by (simp add: example_cancelled_pending_eq)
  moreover have "inMemoryJobs (createPost_settles 0 (Rejected (Error ''db down''))
                      example_cancelled_pending) = []"
    unfolding example_cancelled_rejected_def [symmetric]
    by (simp add: example_cancelled_rejected_eq)
  moreover have "getScheduledPosts list_bull
         (createPost_settles 0 (Rejected (Error ''db down'')) example_cancelled_pending) 7
       = []"
    unfolding example_cancelled_rejected_def [symmetric]
    by (simp add: example_cancelled_rejected_eq getScheduledPosts_def activeQueue_def
          Map_values_def)
  ultimately show ?thesis by blast
qed

text \<open>
  Claim C4, as the code has it. When the \<^verbatim>\<open>createPost\<close> call of a fired callback
  resolves, the job's entry is gone from \<^verbatim>\<open>inMemoryJobs\<close>. When it rejects with an error
  and the entry is still in the map, the entry stays, with status \<^verbatim>\<open>'failed'\<close> and
  \<^verbatim>\<open>error\<close> set to the error's message and nothing else changed, and on the fallback a
  later \<^verbatim>\<open>getScheduledPosts\<close> for the job's owner returns it with status \<^verbatim>\<open>'failed'\<close>.
  When it rejects and the entry is no longer in the map, the module state stays as it
  is.
\<close>

theorem callback_outcome:
  "Map_get (inMemoryJobs (callback_resume t Resolved s)) (t_jobId t) = None
   \<and> (Map_get (inMemoryJobs s) (t_jobId t) = Some j \<longrightarrow>
        Map_get (inMemoryJobs (callback_resume t (Rejected (Error message)) s)) (t_jobId t)
          = Some (j\<lparr>job_status := ''failed'', job_error := Some message\<rparr>)
        \<and> (activeQueue s = None \<longrightarrow>
             (memory_view j)\<lparr>sp_status := ''failed''\<rparr>
               \<in> set (getScheduledPosts B (callback_resume t (Rejected (Error message)) s)
                        (job_userId j))))
   \<and> (Map_get (inMemoryJobs s) (t_jobId t) = None \<longrightarrow>
        callback_resume t (Rejected (Error message)) s = s)"
proof -
  have ok: "Map_get (inMemoryJobs (callback_resume t Resolved s)) (t_jobId t) = None"
    by (simp add: callback_resume_def Map_get_delete_same)
  have bad: "Map_get (inMemoryJobs (callback_resume t (Rejected (Error message)) s)) (t_jobId t)
          = Some (j\<lparr>job_status := ''failed'', job_error := Some message\<rparr>)"
    if "Map_get (inMemoryJobs s) (t_jobId t) = Some j"
    using that by (simp add: callback_resume_def Map_get_set)
  have listed: "(memory_view j)\<lparr>sp_status := ''failed''\<rparr>
               \<in> set (getScheduledPosts B (callback_resume t (Rejected (Error message)) s)
                        (job_userId j))"
    if present: "Map_get (inMemoryJobs s) (t_jobId t) = Some j" and fb: "activeQueue s = None"
  proof -
    let ?j' = "j\<lparr>job_status := ''failed'', job_error := Some message\<rparr>"
    let ?s' = "callback_resume t (Rejected (Error message)) s"
    have "activeQueue ?s' = None"
      using fb by simp
    moreover have "?j' \<in> set (Map_values (inMemoryJobs ?s'))"
      using present by (simp add: callback_resume_def Map_values_set_present)
    moreover have "memory_view ?j' = (memory_view j)\<lparr>sp_status := ''failed''\<rparr>"
      by (simp add: memory_view_def)
    moreover have "job_userId ?j' = job_userId j" by simp
    ultimately show ?thesis
      by (force simp: getScheduledPosts_def)
  qed
  have absent: "callback_resume t (Rejected (Error message)) s = s"
    if "Map_get (inMemoryJobs s) (t_jobId t) = None"
    using that by (simp add: callback_resume_def)
  from ok bad listed absent show ?thesis by blast
qed

theorem callback_outcome_witness:
  "Map_get (inMemoryJobs example_awaiting) (t_jobId example_timer) = Some example_job
   \<and> activeQueue example_awaiting = None
   \<and> Map_get (inMemoryJobs (callback_resume example_timer Resolved example_awaiting))
        ''memory-job-1'' = None
   \<and> Map_get (inMemoryJobs (callback_resume example_timer (Rejected (Error ''db down''))
                                example_awaiting)) ''memory-job-1''
       = Some (example_job\<lparr>job_status := ''failed'', job_error := Some ''db down''\<rparr>)
   \<and> (memory_view example_job)\<lparr>sp_status := ''failed''\<rparr>
       \<in> set (getScheduledPosts list_bull
                 (callback_resume example_timer (Rejected (Error ''db down'')) example_awaiting)
                 7)
   \<and> Map_get (inMemoryJobs example_cancelled) (t_jobId example_timer) = None
   \<and> callback_resume example_timer (Rejected (Error ''db down'')) example_cancelled
       = example_cancelled"
proof -
  have present: "Map_get (inMemoryJobs example_awaiting) (t_jobId example_timer) = Some example_job"
    by (simp add: example_awaiting_eq example_timer_def Map_get_def)
  have fb: "activeQueue example_awaiting = None"
    by (simp add: example_awaiting_eq activeQueue_def)
  have id: "t_jobId example_timer = ''memory-job-1''"
    by (simp add: example_timer_def)
  have owner: "job_userId example_job = 7"
    by (simp add: example_job_def)
  have gone: "Map_get (inMemoryJobs example_cancelled) (t_jobId example_timer) = None"
    by (simp add: example_cancelled_eq Map_get_def)
  from callback_outcome [of example_timer example_awaiting example_job "''db down''" list_bull]
    present fb
  have a: "Map_get (inMemoryJobs (callback_resume example_timer Resolved example_awaiting))
        ''memory-job-1'' = None
   \<and> Map_get (inMemoryJobs (callback_resume example_timer (Rejected (Error ''db down''))
                                example_awaiting)) ''memory-job-1''
       = Some (example_job\<lparr>job_status := ''failed'', job_error := Some ''db down''\<rparr>)
   \<and> (memory_view example_job)\<lparr>sp_status := ''failed''\<rparr>
       \<in> set (getScheduledPosts list_bull
                 (callback_resume example_timer (Rejected (Error ''db down'')) example_awaiting)
                 7)"
    unfolding id owner by blast
  from callback_outcome [of example_timer example_cancelled example_job "''db down''" list_bull]
    gone
  have b: "callback_resume example_timer (Rejected (Error ''db down'')) example_cancelled
       = example_cancelled"
    by blast
  from present fb a gone b show ?thesis by blast
qed

subsection \<open>When cancelling fails\<close>

text \<open>
  The module is loaded, user 7 schedules a post before the probe has answered, and the
  probe then succeeds. Bull is now the active backend and knows no job
  \<^verbatim>\<open>memory-job-1\<close>, and the caller's listing is empty; \<^verbatim>\<open>cancelScheduledPost\<close> still
  succeeds, because an identifier that starts with \<^verbatim>\<open>memory-job-\<close> is always looked up
  in \<^verbatim>\<open>inMemoryJobs\<close>.
\<close>

theorem cancel_memory_job_while_redis_active:
  "activeQueue example_probe_succeeded = Some []
   \<and> Queue_getJob list_bull ''memory-job-1'' [] = Inr None
   \<and> getScheduledPosts list_bull example_probe_succeeded 7 = []
   \<and> fst (cancelScheduledPost list_bull example_probe_succeeded ''memory-job-1'')
       = Inr \<lparr>cr_jobId = ''memory-job-1'', cr_status = ''cancelled'',
              cr_message = ''Scheduled post cancelled successfully (in-memory)''\<rparr>"
  by (simp add: example_probe_succeeded_eq activeQueue_def list_bull_def
        cancelScheduledPost_def getScheduledPosts_def startsWith_def Map_has_def)

text \<open>
  Claim C5, as the code has it. A call that is routed to \<^verbatim>\<open>inMemoryJobs\<close> (Bull is not
  active, or the identifier starts with \<^verbatim>\<open>memory-job-\<close>) throws
  \<^verbatim>\<open>Error('Scheduled post not found')\<close> exactly when the identifier is no key of the
  map, and returns \<^verbatim>\<open>{ jobId, status: 'cancelled' }\<close> otherwise. A call that is routed to
  Bull throws that error when \<^verbatim>\<open>getJob\<close> resolves to \<^verbatim>\<open>null\<close>, rethrows what a rejected
  \<^verbatim>\<open>getJob\<close> or \<^verbatim>\<open>job.remove()\<close> rejects with, and returns
  \<^verbatim>\<open>{ jobId, status: 'cancelled' }\<close> when the job is found and removed. On the fallback,
  along every run from the module load, the REST handler answers 404 exactly when no
  entry with that identifier belongs to the caller, and 200 with the cancellation
  result otherwise.
\<close>

theorem cancel_not_found_iff:
  "((activeQueue s = None \<or> startsWith jobId ''memory-job-'') \<longrightarrow>
      ((fst (cancelScheduledPost B s jobId) = Inl (Error ''Scheduled post not found''))
         \<longleftrightarrow> jobId \<notin> fst ` set (inMemoryJobs s))
      \<and> (jobId \<in> fst ` set (inMemoryJobs s) \<longrightarrow>
           fst (cancelScheduledPost B s jobId)
             = Inr \<lparr>cr_jobId = jobId, cr_status = ''cancelled'',
                    cr_message = ''Scheduled post cancelled successfully (in-memory)''\<rparr>))
   \<and> (\<forall>q. activeQueue s = Some q \<and> \<not> startsWith jobId ''memory-job-'' \<longrightarrow>
        (Queue_getJob B jobId q = Inr None \<longrightarrow>
           fst (cancelScheduledPost B s jobId) = Inl (Error ''Scheduled post not found''))
        \<and> (\<forall>err. Queue_getJob B jobId q = Inl err \<longrightarrow>
               fst (cancelScheduledPost B s jobId) = Inl err)
        \<and> (\<forall>bjob err. Queue_getJob B jobId q = Inr (Some bjob)
                 \<and> fst (Job_remove B bjob q) = Some err \<longrightarrow>
               fst (cancelScheduledPost B s jobId) = Inl err)
        \<and> (\<forall>bjob. Queue_getJob B jobId q = Inr (Some bjob)
                 \<and> fst (Job_remove B bjob q) = None \<longrightarrow>
               fst (cancelScheduledPost B s jobId)
                 = Inr \<lparr>cr_jobId = jobId, cr_status = ''cancelled'',
                        cr_message = ''Scheduled post cancelled successfully''\<rparr>))
   \<and> (jobId \<noteq> [] \<longrightarrow> activeQueue (run B module_load es) = None \<longrightarrow>
        ((res_status (fst (cancelScheduledPostById B (run B module_load es) jobId userId)) = 404)
           \<longleftrightarrow> \<not> (\<exists>j. (jobId, j) \<in> set (inMemoryJobs (run B module_load es))
                       \<and> job_userId j = userId))
        \<and> (res_status (fst (cancelScheduledPostById B (run B module_load es) jobId userId))
              \<noteq> 404 \<longrightarrow>
            fst (cancelScheduledPostById B (run B module_load es) jobId userId)
              = \<lparr>res_status = 200, res_error = None, res_details = None,
                 res_message = Some ''Scheduled post cancelled successfully'',
                 res_data = Some \<lparr>cr_jobId = jobId, cr_status = ''cancelled'',
                     cr_message = ''Scheduled post cancelled successfully (in-memory)''\<rparr>\<rparr>))"
proof (intro conjI impI allI)
  assume "activeQueue s = None \<or> startsWith jobId ''memory-job-''"
  then have r: "(if \<not> startsWith jobId ''memory-job-'' then activeQueue s else None) = None"
    by auto
  show "(fst (cancelScheduledPost B s jobId) = Inl (Error ''Scheduled post not found''))
         \<longleftrightarrow> jobId \<notin> fst ` set (inMemoryJobs s)"
    by (simp add: cancel_result r)
  show "fst (cancelScheduledPost B s jobId)
             = Inr \<lparr>cr_jobId = jobId, cr_status = ''cancelled'',
                    cr_message = ''Scheduled post cancelled successfully (in-memory)''\<rparr>"
    if "jobId \<in> fst ` set (inMemoryJobs s)"
    using that by (simp add: cancel_result r)
next
  fix q
  assume "activeQueue s = Some q \<and> \<not> startsWith jobId ''memory-job-''"
  then have r: "(if \<not> startsWith jobId ''memory-job-'' then activeQueue s else None) = Some q"
    by auto
  show "fst (cancelScheduledPost B s jobId) = Inl (Error ''Scheduled post not found'')"
    if "Queue_getJob B jobId q = Inr None"
    using that by (simp add: cancel_result r)
  show "fst (cancelScheduledPost B s jobId) = Inl err"
    if "Queue_getJob B jobId q = Inl err" for err
    using that by (simp add: cancel_result r)
  show "fst (cancelScheduledPost B s jobId) = Inl err"
    if "Queue_getJob B jobId q = Inr (Some bjob) \<and> fst (Job_remove B bjob q) = Some err"
    for bjob err
    using that by (simp add: cancel_result r)
  show "fst (cancelScheduledPost B s jobId)
                 = Inr \<lparr>cr_jobId = jobId, cr_status = ''cancelled'',
                        cr_message = ''Scheduled post cancelled successfully''\<rparr>"
    if "Queue_getJob B jobId q = Inr (Some bjob) \<and> fst (Job_remove B bjob q) = None"
    for bjob
    using that by (simp add: cancel_result r)
next
  assume ne: "jobId \<noteq> []" and fb: "activeQueue (run B module_load es) = None"
  note byId = cancelById_fallback [OF jobs_inv_reachable fb ne, where userId = userId]
  show "(res_status (fst (cancelScheduledPostById B (run B module_load es) jobId userId)) = 404)
           \<longleftrightarrow> \<not> (\<exists>j. (jobId, j) \<in> set (inMemoryJobs (run B module_load es))
                       \<and> job_userId j = userId)"
    unfolding byId by (simp add: reject_def)
next
  assume ne: "jobId \<noteq> []" and fb: "activeQueue (run B module_load es) = None"
    and "res_status (fst (cancelScheduledPostById B (run B module_load es) jobId userId)) \<noteq> 404"
  note byId = cancelById_fallback [OF jobs_inv_reachable fb ne, where userId = userId]
  from \<open>res_status _ \<noteq> 404\<close>
  show "fst (cancelScheduledPostById B (run B module_load es) jobId userId)
              = \<lparr>res_status = 200, res_error = None, res_details = None,
                 res_message = Some ''Scheduled post cancelled successfully'',
                 res_data = Some \<lparr>cr_jobId = jobId, cr_status = ''cancelled'',
                     cr_message = ''Scheduled post cancelled successfully (in-memory)''\<rparr>\<rparr>"
    unfolding byId by (auto simp: reject_def split: if_splits)
qed

theorem cancel_not_found_iff_witness:
  "fst (cancelScheduledPost list_bull example_scheduled ''memory-job-9'')
     = Inl (Error ''Scheduled post not found'')
   \<and> fst (cancelScheduledPost list_bull example_probe_succeeded ''scheduled-post-7-1000'')
     = Inl (Error ''Scheduled post not found'')
   \<and> res_status (fst (cancelScheduledPostById list_bull example_scheduled ''memory-job-1'' 8))
       = 404
   \<and> fst (cancelScheduledPostById list_bull example_scheduled ''memory-job-1'' 7)
       = \<lparr>res_status = 200, res_error = None, res_details = None,
          res_message = Some ''Scheduled post cancelled successfully'',
          res_data = Some \<lparr>cr_jobId = ''memory-job-1'', cr_status = ''cancelled'',
              cr_message = ''Scheduled post cancelled successfully (in-memory)''\<rparr>\<rparr>"
proof -
  let ?es = "[SchedulePost 1000 1000 example_post 7 (Some 6000)] :: bull_job list event list"
  have fb: "activeQueue example_scheduled = None"
    by (simp add: example_scheduled_eq activeQueue_def)
  have jobs: "inMemoryJobs example_scheduled = [(''memory-job-1'', example_job)]"
    by (simp add: example_scheduled_eq)
  have owner: "job_userId example_job = 7"
    by (simp add: example_job_def)
  have bull: "activeQueue example_probe_succeeded = Some []"
    by (simp add: example_probe_succeeded_eq activeQueue_def)
  have pre: "\<not> startsWith ''scheduled-post-7-1000'' ''memory-job-''"
    by (simp add: startsWith_def)
  have null: "Queue_getJob list_bull ''scheduled-post-7-1000'' [] = Inr None"
    by (simp add: list_bull_def)
  from cancel_not_found_iff [where B = list_bull and s = example_scheduled
         and jobId = "''memory-job-9''" and es = ?es and userId = 8]
  have a: "fst (cancelScheduledPost list_bull example_scheduled ''memory-job-9'')
     = Inl (Error ''Scheduled post not found'')"
    using fb by (simp add: jobs)
  from cancel_not_found_iff [where B = list_bull and s = example_probe_succeeded
         and jobId = "''scheduled-post-7-1000''" and es = ?es and userId = 8]
    bull pre null
  have a': "fst (cancelScheduledPost list_bull example_probe_succeeded ''scheduled-post-7-1000'')
     = Inl (Error ''Scheduled post not found'')"
    by blast
  from cancel_not_found_iff [where B = list_bull and s = example_scheduled
         and jobId = "''memory-job-1''" and es = ?es and userId = 8]
  have b: "res_status (fst (cancelScheduledPostById list_bull example_scheduled
                               ''memory-job-1'' 8)) = 404"
    unfolding run_example_scheduled using fb by (auto simp: jobs owner)
  from cancel_not_found_iff [where B = list_bull and s = example_scheduled
         and jobId = "''memory-job-1''" and es = ?es and userId = 7]
  have c: "fst (cancelScheduledPostById list_bull example_scheduled ''memory-job-1'' 7)
       = \<lparr>res_status = 200, res_error = None, res_details = None,
          res_message = Some ''Scheduled post cancelled successfully'',
          res_data = Some \<lparr>cr_jobId = ''memory-job-1'', cr_status = ''cancelled'',
              cr_message = ''Scheduled post cancelled successfully (in-memory)''\<rparr>\<rparr>"
    unfolding run_example_scheduled using fb by (auto simp: jobs owner)
  from a a' b c show ?thesis by blast
qed

subsection \<open>Cancelling touches one entry\<close>

text \<open>
  Claim C6. Whatever \<^verbatim>\<open>cancelScheduledPost(jobId)\<close> does, the entries of
  \<^verbatim>\<open>inMemoryJobs\<close> under other keys are the same afterwards, each with all its fields
  and in the same order; a successful cancel on the fallback leaves exactly them.
\<close>

theorem cancel_leaves_other_jobs:
  "filter (\<lambda>e. fst e \<noteq> jobId) (inMemoryJobs (snd (cancelScheduledPost B s jobId)))
     = filter (\<lambda>e. fst e \<noteq> jobId) (inMemoryJobs s)
   \<and> (\<forall>k. k \<noteq> jobId \<longrightarrow>
          Map_get (inMemoryJobs (snd (cancelScheduledPost B s jobId))) k
            = Map_get (inMemoryJobs s) k)
   \<and> (\<forall>r s'. activeQueue s = None \<longrightarrow> cancelScheduledPost B s jobId = (Inr r, s') \<longrightarrow>
          inMemoryJobs s' = filter (\<lambda>e. fst e \<noteq> jobId) (inMemoryJobs s))"
proof (intro conjI allI impI)
  show "filter (\<lambda>e. fst e \<noteq> jobId) (inMemoryJobs (snd (cancelScheduledPost B s jobId)))
     = filter (\<lambda>e. fst e \<noteq> jobId) (inMemoryJobs s)"
    by (simp add: inMemoryJobs_cancel Map_delete_filter)
next
  fix k :: string
  assume "k \<noteq> jobId"
  then show "Map_get (inMemoryJobs (snd (cancelScheduledPost B s jobId))) k
            = Map_get (inMemoryJobs s) k"
    by (simp add: inMemoryJobs_cancel Map_get_delete_other)
next
  fix r s'
  assume fb: "activeQueue s = None" and ok: "cancelScheduledPost B s jobId = (Inr r, s')"
  from ok have "inMemoryJobs s' = inMemoryJobs (snd (cancelScheduledPost B s jobId))"
    by simp
  with fb show "inMemoryJobs s' = filter (\<lambda>e. fst e \<noteq> jobId) (inMemoryJobs s)"
    by (simp add: inMemoryJobs_cancel Map_delete_filter)
qed

theorem cancel_leaves_other_jobs_witness:
  "inMemoryJobs example_two_scheduled
     = [(''memory-job-1'', example_job), (''memory-job-2'', example_job2)]
   \<and> inMemoryJobs (snd (cancelScheduledPost list_bull example_two_scheduled ''memory-job-1''))
     = [(''memory-job-2'', example_job2)]
   \<and> Map_get (inMemoryJobs (snd (cancelScheduledPost list_bull example_two_scheduled
                                  ''memory-job-1''))) ''memory-job-2'' = Some example_job2"
  using cancel_leaves_other_jobs [of "''memory-job-1''" list_bull example_two_scheduled]
  by (simp add: example_two_scheduled_eq cancelScheduledPost_def activeQueue_def
        startsWith_def Map_has_def Map_delete_def Map_get_def)

subsection \<open>The listing shows the caller's jobs only\<close>

text \<open>
  Claim C7. Every object that \<^verbatim>\<open>getScheduledPosts(userId)\<close> returns is the view of a
  job whose \<^verbatim>\<open>userId\<close> is the argument: a job of \<^verbatim>\<open>getJobs(['delayed', 'waiting'])\<close> on
  the Bull path, an entry of \<^verbatim>\<open>inMemoryJobs\<close> on the fallback. Where job identifiers are
  distinct, as they are in the job map along every run, no job of another user has
  the identifier of a returned object.
\<close>

theorem listing_only_owner:
  "p \<in> set (getScheduledPosts B s userId) \<Longrightarrow>
     (case activeQueue s of
        Some q \<Rightarrow>
          (\<exists>b \<in> set (Queue_getJobs B [''delayed'', ''waiting''] q).
              bj_userId b = userId \<and> p = bull_view b)
          \<and> (distinct (map bj_id (Queue_getJobs B [''delayed'', ''waiting''] q)) \<longrightarrow>
               (\<forall>b \<in> set (Queue_getJobs B [''delayed'', ''waiting''] q).
                   bj_id b = sp_jobId p \<longrightarrow> bj_userId b = userId))
      | None \<Rightarrow>
          (\<exists>j \<in> set (Map_values (inMemoryJobs s)).
              job_userId j = userId \<and> p = memory_view j)
          \<and> (distinct (map job_id (Map_values (inMemoryJobs s))) \<longrightarrow>
               (\<forall>j \<in> set (Map_values (inMemoryJobs s)).
                   job_id j = sp_jobId p \<longrightarrow> job_userId j = userId)))"
proof (cases "activeQueue s")
  case None
  assume "p \<in> set (getScheduledPosts B s userId)"
  with None obtain j where j: "j \<in> set (Map_values (inMemoryJobs s))"
    "job_userId j = userId" "p = memory_view j"
    by (auto simp: getScheduledPosts_def)
  have "job_userId j' = userId"
    if "distinct (map job_id (Map_values (inMemoryJobs s)))"
      and "j' \<in> set (Map_values (inMemoryJobs s))" and "job_id j' = sp_jobId p" for j'
  proof -
    have "job_id j' = job_id j" using that(3) j(3) by (simp add: memory_view_def)
    with that(1,2) j(1) have "j' = j" by (rule distinct_map_eq)
    with j(2) show ?thesis by simp
  qed
  with j None show ?thesis by auto
next
  case (Some q)
  assume "p \<in> set (getScheduledPosts B s userId)"
  with Some obtain b where b: "b \<in> set (Queue_getJobs B [''delayed'', ''waiting''] q)"
    "bj_userId b = userId" "p = bull_view b"
    by (auto simp: getScheduledPosts_def)
  have "bj_userId b' = userId"
    if "distinct (map bj_id (Queue_getJobs B [''delayed'', ''waiting''] q))"
      and "b' \<in> set (Queue_getJobs B [''delayed'', ''waiting''] q)"
      and "bj_id b' = sp_jobId p" for b'
  proof -
    have "bj_id b' = bj_id b" using that(3) b(3) by (simp add: bull_view_def)
    with that(1,2) b(1) have "b' = b" by (rule distinct_map_eq)
    with b(2) show ?thesis by simp
  qed
  with b Some show ?thesis by auto
qed

theorem listing_only_owner_witness:
  "map job_userId (Map_values (inMemoryJobs example_two_scheduled)) = [7, 8]
   \<and> memory_view example_job2 \<in> set (getScheduledPosts list_bull example_two_scheduled 8)
   \<and> job_userId example_job2 = 8
   \<and> memory_view example_job \<notin> set (getScheduledPosts list_bull example_two_scheduled 8)"
proof -
  have jobs: "Map_values (inMemoryJobs example_two_scheduled) = [example_job, example_job2]"
    by (simp add: example_two_scheduled_eq Map_values_def)
  have owners: "map job_userId (Map_values (inMemoryJobs example_two_scheduled)) = [7, 8]"
    unfolding jobs by (simp add: example_job_def example_job2_def)
  have listed: "memory_view example_job2
                  \<in> set (getScheduledPosts list_bull example_two_scheduled 8)"
    by (simp add: example_two_scheduled_eq getScheduledPosts_def activeQueue_def
          Map_values_def example_job_def example_job2_def)
  have fb: "activeQueue example_two_scheduled = None"
    by (simp add: example_two_scheduled_eq activeQueue_def)
  have d: "distinct (map job_id (Map_values (inMemoryJobs example_two_scheduled)))"
    unfolding jobs by (simp add: example_job_def example_job2_def)
  from listing_only_owner [OF listed] fb d
  have "\<forall>j \<in> set (Map_values (inMemoryJobs example_two_scheduled)).
          job_id j = sp_jobId (memory_view example_job2) \<longrightarrow> job_userId j = 8"
    by simp
  then have owner2: "job_userId example_job2 = 8"
    unfolding jobs by (simp add: memory_view_def)
  have "memory_view example_job \<notin> set (getScheduledPosts list_bull example_two_scheduled 8)"
  proof
    assume "memory_view example_job \<in> set (getScheduledPosts list_bull example_two_scheduled 8)"
    from listing_only_owner [OF this] fb d
    have "\<forall>j \<in> set (Map_values (inMemoryJobs example_two_scheduled)).
            job_id j = sp_jobId (memory_view example_job) \<longrightarrow> job_userId j = 8"
      by simp
    then have "job_userId example_job = 8"
      unfolding jobs by (simp add: memory_view_def)
    then show False by (simp add: example_job_def)
  qed
  with owners listed owner2 show ?thesis by blast
qed

subsection \<open>Fallback identifiers are never reused\<close>

text \<open>
  Claim C8. On the fallback the identifier of a new job is \<^verbatim>\<open>memory-job-\<close> followed by
  the value of \<^verbatim>\<open>jobIdCounter\<close>, which the call then raises by one and which nothing
  lowers. So two calls of \<^verbatim>\<open>schedulePost\<close> that both succeed on the fallback, with
  any events between them, return different identifiers, and along a run from the
  module load the new identifier is not a key of \<^verbatim>\<open>inMemoryJobs\<close> when it is made.
\<close>

theorem fallback_job_ids_unique:
  assumes "s = run B module_load es0"
    and "activeQueue s = None"
    and "schedulePost B s now now2 postData userId scheduledTime = (Inr r, s')"
    and "s2 = run B s' es"
    and "activeQueue s2 = None"
    and "schedulePost B s2 now' now2' postData' userId' scheduledTime' = (Inr r', s2')"
  shows "sr_jobId r = ''memory-job-'' @ ToString (int (jobIdCounter s))
         \<and> jobIdCounter s' = jobIdCounter s + 1
         \<and> jobIdCounter s < jobIdCounter s2
         \<and> sr_jobId r \<noteq> sr_jobId r'
         \<and> \<not> Map_has (inMemoryJobs s) (sr_jobId r)"
proof -
  note first = schedulePost_fallback [OF assms(2,3)]
  note second = schedulePost_fallback [OF assms(5,6)]
  have "jobIdCounter s' \<le> jobIdCounter s2"
    unfolding assms(4) by (rule jobIdCounter_run)
  with first(2) have lt: "jobIdCounter s < jobIdCounter s2" by simp
  have "sr_jobId r \<noteq> sr_jobId r'"
  proof
    assume "sr_jobId r = sr_jobId r'"
    with first(1) second(1) have "jobIdCounter s = jobIdCounter s2"
      using memory_job_id_inj by simp
    with lt show False by simp
  qed
  moreover have "\<not> Map_has (inMemoryJobs s) (sr_jobId r)"
    unfolding first(1) assms(1) by (rule fresh_job_id [OF jobs_inv_reachable])
  ultimately show ?thesis
    using first lt by blast
qed

theorem fallback_job_ids_unique_witness:
  "fst (schedulePost list_bull module_load 1000 1000 example_post 7 (Some 6000))
     = Inr \<lparr>sr_jobId = ''memory-job-1'', sr_scheduledTime = Some 6000,
            sr_status = ''scheduled'',
            sr_message = ''Post scheduled successfully (in-memory)''\<rparr>
   \<and> fst (schedulePost list_bull
            (run list_bull example_scheduled [CancelScheduledPost ''memory-job-1''])
            2000 2001 example_post 8 (Some 9000))
     = Inr \<lparr>sr_jobId = ''memory-job-2'', sr_scheduledTime = Some 9000,
            sr_status = ''scheduled'',
            sr_message = ''Post scheduled successfully (in-memory)''\<rparr>
   \<and> ''memory-job-1'' \<noteq> ''memory-job-2''
   \<and> jobIdCounter (module_load :: bull_job list state)
       < jobIdCounter (run list_bull example_scheduled [CancelScheduledPost ''memory-job-1''])"
proof -
  let ?r1 = "\<lparr>sr_jobId = ''memory-job-1'', sr_scheduledTime = Some 6000,
            sr_status = ''scheduled'',
            sr_message = ''Post scheduled successfully (in-memory)''\<rparr>"
  let ?r2 = "\<lparr>sr_jobId = ''memory-job-2'', sr_scheduledTime = Some 9000,
            sr_status = ''scheduled'',
            sr_message = ''Post scheduled successfully (in-memory)''\<rparr>"
  let ?s2 = "run list_bull example_scheduled [CancelScheduledPost ''memory-job-1'']"
  have h1: "(module_load :: bull_job list state) = run list_bull module_load []"
    by (simp add: run_def)
  have h2: "activeQueue (module_load :: bull_job list state) = None"
    by (simp add: module_load_def activeQueue_def)
  have f1: "fst (schedulePost list_bull module_load 1000 1000 example_post 7 (Some 6000)) = Inr ?r1"
    by (simp add: schedulePost_def module_load_def activeQueue_def Date_new_in_range
          num_minus_def num_le_def ToString_1 Let_def)
  then have h3: "schedulePost list_bull module_load 1000 1000 example_post 7 (Some 6000)
              = (Inr ?r1, example_scheduled)"
    unfolding example_scheduled_def by (metis prod.collapse)
  have s2: "?s2 = example_cancelled"
    by (simp add: run_def example_cancelled_def)
  have h5: "activeQueue ?s2 = None"
    unfolding s2 by (simp add: example_cancelled_eq activeQueue_def)
  have f2: "fst (schedulePost list_bull ?s2 2000 2001 example_post 8 (Some 9000)) = Inr ?r2"
    unfolding s2
    by (simp add: example_cancelled_eq schedulePost_def activeQueue_def Date_new_in_range
          num_minus_def num_le_def ToString_2 Let_def)
  then have h6: "schedulePost list_bull ?s2 2000 2001 example_post 8 (Some 9000)
              = (Inr ?r2, snd (schedulePost list_bull ?s2 2000 2001 example_post 8 (Some 9000)))"
    by (metis prod.collapse)
  from fallback_job_ids_unique [OF h1 h2 h3 refl h5 h6]
  have "sr_jobId ?r1 \<noteq> sr_jobId ?r2"
    and "jobIdCounter (module_load :: bull_job list state) < jobIdCounter ?s2"
    by blast+
  with f1 f2 show ?thesis by simp
qed

subsection \<open>The statistics name the backend\<close>

text \<open>
  Claim C9. \<^verbatim>\<open>getQueueStats\<close> returns an object with the counts \<^verbatim>\<open>waiting\<close>,
  \<^verbatim>\<open>active\<close>, \<^verbatim>\<open>completed\<close>, \<^verbatim>\<open>failed\<close>, \<^verbatim>\<open>delayed\<close>, \<^verbatim>\<open>total\<close> and the backend in the
  field the source calls \<^verbatim>\<open>type\<close>: \<^verbatim>\<open>'redis'\<close> when Bull is in use, \<^verbatim>\<open>'in-memory'\<close>
  otherwise. After a failed probe it is \<^verbatim>\<open>'in-memory'\<close>, and stays so along every run
  in which the initialisation does not happen again.
\<close>

theorem stats_type_reports_backend:
  "qs_type (getQueueStats B s)
     = (if isRedisAvailable s \<and> scheduledPostsQueue s \<noteq> None then ''redis''
        else ''in-memory'')
   \<and> qs_type (getQueueStats B (initializeQueue False newQueue s)) = ''in-memory''
   \<and> ((\<forall>probe nq. InitializeQueue probe nq \<notin> set es) \<longrightarrow>
        qs_type (getQueueStats B (run B (initializeQueue False newQueue s) es))
          = ''in-memory'')"
proof -
  have off: "\<not> isRedisAvailable (initializeQueue False newQueue s)"
    by (simp add: initializeQueue_def)
  then have "qs_type (getQueueStats B (initializeQueue False newQueue s)) = ''in-memory''"
    by (simp add: qs_type_getQueueStats)
  moreover have "qs_type (getQueueStats B (run B (initializeQueue False newQueue s) es))
          = ''in-memory''"
    if "\<forall>probe nq. InitializeQueue probe nq \<notin> set es"
    using off isRedisAvailable_run [OF that, of B "initializeQueue False newQueue s"]
    by (simp add: qs_type_getQueueStats)
  ultimately show ?thesis
    using qs_type_getQueueStats [of B s] by blast
qed

theorem stats_type_reports_backend_witness:
  "qs_type (getQueueStats list_bull
     (run list_bull (initializeQueue False None module_load)
        [SchedulePost 1000 1000 example_post 7 (Some 6000)])) = ''in-memory''
   \<and> getQueueStats list_bull example_scheduled
     = \<lparr>qs_waiting = 0, qs_active = 0, qs_completed = 0, qs_failed = 0, qs_delayed = 1,
        qs_total = 1, qs_type = ''in-memory''\<rparr>
   \<and> qs_type (getQueueStats list_bull example_probe_succeeded) = ''redis''"
proof -
  have noinit: "\<forall>probe nq. InitializeQueue probe nq
                  \<notin> set [SchedulePost 1000 1000 example_post 7 (Some 6000)
                          :: bull_job list event]"
    by simp
  from stats_type_reports_backend [of list_bull module_load None
         "[SchedulePost 1000 1000 example_post 7 (Some 6000)]"] noinit
  have t: "qs_type (getQueueStats list_bull
             (run list_bull (initializeQueue False None module_load)
                [SchedulePost 1000 1000 example_post 7 (Some 6000)])) = ''in-memory''"
    by blast
  have a: "getQueueStats list_bull example_scheduled
     = \<lparr>qs_waiting = 0, qs_active = 0, qs_completed = 0, qs_failed = 0, qs_delayed = 1,
        qs_total = 1, qs_type = ''in-memory''\<rparr>"
    by (simp add: example_scheduled_eq getQueueStats_def activeQueue_def Map_values_def
          example_job_def Let_def)
  have b: "qs_type (getQueueStats list_bull example_probe_succeeded) = ''redis''"
    by (simp add: qs_type_getQueueStats example_probe_succeeded_eq)
  from t a b show ?thesis by blast
qed

subsection \<open>The statuses in the job map and the fallback statistics\<close>

text \<open>
  Claim C10. Along every run from the module load, each entry of \<^verbatim>\<open>inMemoryJobs\<close> has
  status \<^verbatim>\<open>'scheduled'\<close> or \<^verbatim>\<open>'failed'\<close>. Hence, when the fallback is in use,
  \<^verbatim>\<open>getQueueStats\<close> reports \<^verbatim>\<open>waiting\<close>, \<^verbatim>\<open>active\<close> and \<^verbatim>\<open>completed\<close> as 0 and
  \<^verbatim>\<open>total\<close> as the sum of \<^verbatim>\<open>failed\<close> and \<^verbatim>\<open>delayed\<close>.
\<close>

theorem fallback_statuses_and_stats:
  "(\<forall>j \<in> set (Map_values (inMemoryJobs (run B module_load es))).
       job_status j = ''scheduled'' \<or> job_status j = ''failed'')
   \<and> (activeQueue (run B module_load es) = None \<longrightarrow>
        qs_waiting (getQueueStats B (run B module_load es)) = 0
        \<and> qs_active (getQueueStats B (run B module_load es)) = 0
        \<and> qs_completed (getQueueStats B (run B module_load es)) = 0
        \<and> qs_total (getQueueStats B (run B module_load es))
            = qs_failed (getQueueStats B (run B module_load es))
              + qs_delayed (getQueueStats B (run B module_load es)))"
proof -
  let ?s = "run B module_load es"
  let ?jobs = "Map_values (inMemoryJobs ?s)"
  have st: "\<forall>j \<in> set ?jobs. job_status j = ''scheduled'' \<or> job_status j = ''failed''"
    using reachable_statuses by blast
  then have "\<forall>j \<in> set ?jobs.
      (job_status j = ''scheduled'' \<or> job_status j = ''failed'')
      \<and> \<not> (job_status j = ''scheduled'' \<and> job_status j = ''failed'')"
    by auto
  then have "length ?jobs = length (filter (\<lambda>j. job_status j = ''failed'') ?jobs)
                          + length (filter (\<lambda>j. job_status j = ''scheduled'') ?jobs)"
    by (rule length_two_filters)
  then have "activeQueue ?s = None \<longrightarrow>
        qs_waiting (getQueueStats B ?s) = 0
        \<and> qs_active (getQueueStats B ?s) = 0
        \<and> qs_completed (getQueueStats B ?s) = 0
        \<and> qs_total (getQueueStats B ?s)
            = qs_failed (getQueueStats B ?s) + qs_delayed (getQueueStats B ?s)"
    by (simp add: getQueueStats_def Let_def)
  with st show ?thesis by blast
qed

theorem fallback_statuses_and_stats_witness:
  "getQueueStats list_bull
     (run list_bull module_load
        [SchedulePost 1000 1000 example_post 7 (Some 6000), TimerFires 0,
         CreatePostSettles 0 (Rejected (Error ''db down'')),
         SchedulePost 2000 2001 example_post 8 (Some 9000)])
     = \<lparr>qs_waiting = 0, qs_active = 0, qs_completed = 0, qs_failed = 1, qs_delayed = 1,
        qs_total = 2, qs_type = ''in-memory''\<rparr>"
proof -
  let ?es = "[SchedulePost 1000 1000 example_post 7 (Some 6000), TimerFires 0,
         CreatePostSettles 0 (Rejected (Error ''db down'')),
         SchedulePost 2000 2001 example_post 8 (Some 9000)] :: bull_job list event list"
  let ?failed = "\<lparr>scheduledPostsQueue = None, isRedisAvailable = False,
      inMemoryJobs = [(''memory-job-1'',
                       example_job\<lparr>job_status := ''failed'', job_error := Some ''db down''\<rparr>)],
      jobIdCounter = 2, timers = [], awaiting = [],
      createPostCalls = [\<lparr>pd_content = ''hi'', pd_user_id = 7\<rparr>]\<rparr> :: bull_job list state"
  let ?final = "\<lparr>scheduledPostsQueue = None, isRedisAvailable = False,
      inMemoryJobs = [(''memory-job-1'',
                       example_job\<lparr>job_status := ''failed'', job_error := Some ''db down''\<rparr>),
                      (''memory-job-2'', example_job2)],
      jobIdCounter = 3,
      timers = [\<lparr>t_jobId = ''memory-job-2'', t_postData = example_post, t_userId = 8,
                  t_delay = Some 7000\<rparr>],
      awaiting = [],
      createPostCalls = [\<lparr>pd_content = ''hi'', pd_user_id = 7\<rparr>]\<rparr> :: bull_job list state"
  have s1: "step list_bull module_load (SchedulePost 1000 1000 example_post 7 (Some 6000))
              = example_scheduled"
    by (simp add: example_scheduled_def)
  have s2: "step list_bull example_scheduled (TimerFires 0) = example_awaiting"
    by (simp add: example_awaiting_def)
  have s3: "step list_bull example_awaiting (CreatePostSettles 0 (Rejected (Error ''db down'')))
              = ?failed"
    by (simp add: createPost_settles_example)
  have s4: "step list_bull ?failed (SchedulePost 2000 2001 example_post 8 (Some 9000)) = ?final"
    by (simp add: schedulePost_def activeQueue_def Date_new_in_range num_minus_def
          num_le_def Map_set_def ToString_2 Let_def example_job2_def example_job_def)
  have r: "run list_bull module_load ?es = ?final"
    by (simp only: run_def foldl.simps s1 s2 s3 s4)
  then have fb: "activeQueue (run list_bull module_load ?es) = None"
    by (simp add: activeQueue_def)
  have n: "getQueueStats list_bull (run list_bull module_load ?es)
     = \<lparr>qs_waiting = 0, qs_active = 0, qs_completed = 0,
        qs_failed = qs_failed (getQueueStats list_bull (run list_bull module_load ?es)),
        qs_delayed = qs_delayed (getQueueStats list_bull (run list_bull module_load ?es)),
        qs_total = qs_total (getQueueStats list_bull (run list_bull module_load ?es)),
        qs_type = ''in-memory''\<rparr>"
    using fb by (simp add: getQueueStats_def Let_def)
  have f: "qs_failed (getQueueStats list_bull (run list_bull module_load ?es)) = 1"
    unfolding r by (simp add: getQueueStats_def activeQueue_def Map_values_def Let_def
                      example_job_def example_job2_def)
  have d: "qs_delayed (getQueueStats list_bull (run list_bull module_load ?es)) = 1"
    unfolding r by (simp add: getQueueStats_def activeQueue_def Map_values_def Let_def
                      example_job_def example_job2_def)
  from fallback_statuses_and_stats [of list_bull ?es] fb f d
  have "qs_total (getQueueStats list_bull (run list_bull module_load ?es)) = 2"
    by simp
  with n f d show ?thesis by simp
qed

end
